theory Spec2Isabelle
  imports Complex_Main "HOL-Library.Sublist"
begin

section \<open>Strings\<close>

text \<open>
  JavaScript strings are modelled as \<^typ>\<open>string\<close>. \<open>toLowerCase\<close> lowers the letters
  \<open>A\<close> to \<open>Z\<close> and leaves every other character alone. JavaScript lowers every cased
  letter, so the model agrees with it on ASCII text and differs on a cased letter outside
  ASCII. The general results below do not unfold \<open>toLowerCase\<close> and hold for any
  lowering function; the concrete evaluations use ASCII text only.
  \<open>s.includes(t)\<close> holds when \<open>t\<close> occurs in \<open>s\<close> as a contiguous block.
\<close>

definition toLowerCase_char :: "char \<Rightarrow> char" where
  "toLowerCase_char c =
     (case map_of (zip ''ABCDEFGHIJKLMNOPQRSTUVWXYZ'' ''abcdefghijklmnopqrstuvwxyz'') c of
        Some l \<Rightarrow> l
      | None \<Rightarrow> c)"

definition toLowerCase :: "string \<Rightarrow> string" where
  "toLowerCase s = map toLowerCase_char s"

fun js_includes :: "string \<Rightarrow> string \<Rightarrow> bool" where
  "js_includes [] t = (t = [])"
| "js_includes (c # s) t = (prefix t (c # s) \<or> js_includes s t)"

section \<open>Coverage page: records, mock data, filter\<close>

text \<open>
  \<open>Coverage.jsx\<close>. The form holds six fields; a mapping is the form's fields plus
  \<open>id\<close> and \<open>status\<close> (\<open>{ ...formData, id: ..., status: 'active' }\<close>).
  \<open>coveragePercentage\<close> is a number in the mock data and the text of an input field
  in a record built from the form.
\<close>

datatype js_prim = Number int | Text string

record mapping_form =
  filePath :: string
  testFilePath :: string
  testFunctionName :: string
  coveragePercentage :: js_prim
  priority :: string
  lastUpdated :: string

record mapping = mapping_form +
  id_m :: int
  status_m :: string

definition mockMappings :: "mapping list" where
  "mockMappings =
    [\<lparr>filePath = ''src/components/Button.jsx'',
      testFilePath = ''src/components/__tests__/Button.test.jsx'',
      testFunctionName = ''Button component tests'',
      coveragePercentage = Number 95, priority = ''high'',
      lastUpdated = ''2024-01-15'', id_m = 1, status_m = ''active''\<rparr>,
     \<lparr>filePath = ''src/utils/helpers.js'',
      testFilePath = ''src/utils/__tests__/helpers.test.js'',
      testFunctionName = ''Helper function tests'',
      coveragePercentage = Number 87, priority = ''medium'',
      lastUpdated = ''2024-01-14'', id_m = 2, status_m = ''active''\<rparr>,
     \<lparr>filePath = ''src/services/api.js'',
      testFilePath = ''src/services/__tests__/api.test.js'',
      testFunctionName = ''API service tests'',
      coveragePercentage = Number 72, priority = ''low'',
      lastUpdated = ''2024-01-13'', id_m = 3, status_m = ''active''\<rparr>,
     \<lparr>filePath = ''src/hooks/useAuth.js'',
      testFilePath = ''src/hooks/__tests__/useAuth.test.js'',
      testFunctionName = ''Authentication hook tests'',
      coveragePercentage = Number 91, priority = ''high'',
      lastUpdated = ''2024-01-12'', id_m = 4, status_m = ''active''\<rparr>,
     \<lparr>filePath = ''src/components/Modal.jsx'',
      testFilePath = ''src/components/__tests__/Modal.test.jsx'',
      testFunctionName = ''Modal component tests'',
      coveragePercentage = Number 68, priority = ''medium'',
      lastUpdated = ''2024-01-11'', id_m = 5, status_m = ''inactive''\<rparr>]"

text \<open>
  \<open>filteredMappings\<close> (Coverage.jsx, "Filter and search"): the callback of
  \<open>mappings.filter\<close>, with its two local constants.
\<close>

definition filteredMappings :: "mapping list \<Rightarrow> string \<Rightarrow> string \<Rightarrow> mapping list" where
  "filteredMappings mappings searchTerm filterType =
     filter (\<lambda>mapping.
       let matchesSearch =
             (js_includes (toLowerCase (filePath mapping)) (toLowerCase searchTerm) \<or>
              js_includes (toLowerCase (testFilePath mapping)) (toLowerCase searchTerm) \<or>
              js_includes (toLowerCase (testFunctionName mapping)) (toLowerCase searchTerm));
           matchesFilter = (filterType = ''all'' \<or> priority mapping = filterType)
       in matchesSearch \<and> matchesFilter) mappings"

section \<open>Repositories page: records, mock data, filter\<close>

text \<open>
  The Repositories page. The form holds seven fields; a repository is the form's
  fields plus \<open>id\<close> and the counters. A record rebuilt by an edit
  (\<open>{ ...formData, id: repo.id }\<close>) has no counters, so they are optional.
\<close>

record repo_form =
  name :: string
  url :: string
  description :: string
  language :: string
  status :: string
  branch :: string
  lastSync :: string

record repo = repo_form +
  id_r :: int
  stars :: "int option"
  forks :: "int option"
  issues :: "int option"
  pullRequests :: "int option"
  coverage :: "int option"
  lastCommit :: "string option"

definition mockRepositories :: "repo list" where
  "mockRepositories =
    [\<lparr>name = ''frontend-app'', url = ''https://github.com/company/frontend-app'',
      description = ''React-based frontend application with modern UI components'',
      language = ''JavaScript'', status = ''active'', branch = ''main'',
      lastSync = ''2024-01-15'', id_r = 1, stars = Some 45, forks = Some 12,
      issues = Some 3, pullRequests = Some 7, coverage = Some 87,
      lastCommit = Some ''2 hours ago''\<rparr>,
     \<lparr>name = ''backend-api'', url = ''https://github.com/company/backend-api'',
      description = ''FastAPI backend service with PostgreSQL database'',
      language = ''Python'', status = ''active'', branch = ''main'',
      lastSync = ''2024-01-14'', id_r = 2, stars = Some 32, forks = Some 8,
      issues = Some 5, pullRequests = Some 4, coverage = Some 92,
      lastCommit = Some ''1 day ago''\<rparr>,
     \<lparr>name = ''mobile-app'', url = ''https://github.com/company/mobile-app'',
      description = ''React Native mobile application for iOS and Android'',
      language = ''JavaScript'', status = ''active'', branch = ''develop'',
      lastSync = ''2024-01-13'', id_r = 3, stars = Some 28, forks = Some 6,
      issues = Some 2, pullRequests = Some 3, coverage = Some 78,
      lastCommit = Some ''3 days ago''\<rparr>,
     \<lparr>name = ''data-pipeline'', url = ''https://github.com/company/data-pipeline'',
      description = ''ETL pipeline for data processing and analytics'',
      language = ''Python'', status = ''inactive'', branch = ''main'',
      lastSync = ''2024-01-10'', id_r = 4, stars = Some 15, forks = Some 3,
      issues = Some 8, pullRequests = Some 1, coverage = Some 65,
      lastCommit = Some ''1 week ago''\<rparr>,
     \<lparr>name = ''infrastructure'', url = ''https://github.com/company/infrastructure'',
      description = ''Terraform and Docker configurations for deployment'',
      language = ''HCL'', status = ''active'', branch = ''main'',
      lastSync = ''2024-01-12'', id_r = 5, stars = Some 22, forks = Some 5,
      issues = Some 1, pullRequests = Some 2, coverage = Some 45,
      lastCommit = Some ''5 days ago''\<rparr>,
     \<lparr>name = ''documentation'', url = ''https://github.com/company/documentation'',
      description = ''Project documentation and API references'',
      language = ''Markdown'', status = ''active'', branch = ''main'',
      lastSync = ''2024-01-11'', id_r = 6, stars = Some 18, forks = Some 4,
      issues = Some 0, pullRequests = Some 1, coverage = Some 0,
      lastCommit = Some ''6 days ago''\<rparr>]"

definition filteredRepositories :: "repo list \<Rightarrow> string \<Rightarrow> string \<Rightarrow> repo list" where
  "filteredRepositories repositories searchTerm filterStatus =
     filter (\<lambda>repo.
       let matchesSearch =
             (js_includes (toLowerCase (name repo)) (toLowerCase searchTerm) \<or>
              js_includes (toLowerCase (description repo)) (toLowerCase searchTerm) \<or>
              js_includes (toLowerCase (language repo)) (toLowerCase searchTerm));
           matchesFilter = (filterStatus = ''all'' \<or> status repo = filterStatus)
       in matchesSearch \<and> matchesFilter) repositories"

section \<open>Pagination\<close>

text \<open>
  \<open>Array.prototype.slice(start, end)\<close>: a negative index counts from the end of the
  array, both indices are clamped to the array, and an empty range gives the empty array.
\<close>

definition js_slice :: "'a list \<Rightarrow> int \<Rightarrow> int \<Rightarrow> 'a list" where
  "js_slice xs start fin =
     (let len = int (length xs);
          k = (if start < 0 then max (len + start) 0 else min start len);
          final = (if fin < 0 then max (len + fin) 0 else min fin len)
      in take (nat (final - k)) (drop (nat k) xs))"

text \<open>
  \<open>Math.ceil(length / itemsPerPage)\<close>, over the reals. The page sizes are 10 and 8 and
  an array length is below \<open>2^32\<close>, where the quotient of doubles rounds to the same
  integer as the exact quotient.
\<close>

definition Math_ceil :: "real \<Rightarrow> int" where
  "Math_ceil x = \<lceil>x\<rceil>"

text \<open>
  Coverage.jsx: \<open>useState(10)\<close>; Repositories: \<open>useState(8)\<close>. In the four
  definitions below \<open>filtered\<close> is the page's filtered list (\<open>filteredMappings\<close>,
  \<open>filteredRepositories\<close>).
\<close>

definition itemsPerPage_m :: int where
  "itemsPerPage_m = 10"

definition itemsPerPage_r :: int where
  "itemsPerPage_r = 8"

definition totalPages_m :: "'a list \<Rightarrow> int" where
  "totalPages_m filtered =
     Math_ceil (real (length filtered) / real_of_int itemsPerPage_m)"

definition paginatedMappings :: "'a list \<Rightarrow> int \<Rightarrow> 'a list" where
  "paginatedMappings filtered currentPage =
     js_slice filtered
       ((currentPage - 1) * itemsPerPage_m) (currentPage * itemsPerPage_m)"

definition totalPages_r :: "'a list \<Rightarrow> int" where
  "totalPages_r filtered =
     Math_ceil (real (length filtered) / real_of_int itemsPerPage_r)"

definition paginatedRepositories :: "'a list \<Rightarrow> int \<Rightarrow> 'a list" where
  "paginatedRepositories filtered currentPage =
     js_slice filtered
       ((currentPage - 1) * itemsPerPage_r) (currentPage * itemsPerPage_r)"

section \<open>The add/edit forms\<close>

text \<open>
  The state of each page component (its \<open>useState\<close> variables) is a record; a handler
  takes the state and returns the state after its setters have run. \<open>Date.now()\<close> and
  today's date (\<open>new Date().toISOString().split('T')[0]\<close>) are inputs. Names shared by
  the two pages carry \<open>_c\<close> (Coverage) or \<open>_r\<close> (Repositories).
\<close>

record coverage_page =
  mappings :: "mapping list"
  loading_c :: bool
  showForm_c :: bool
  editingMapping :: "mapping option"
  searchTerm_c :: string
  filterType :: string
  currentPage_c :: int
  formData_c :: mapping_form

text \<open>\<open>{ ...formData, id: i, status: s }\<close>\<close>

definition spread_formData_c :: "mapping_form \<Rightarrow> int \<Rightarrow> string \<Rightarrow> mapping" where
  "spread_formData_c formData i s =
     \<lparr>filePath = filePath formData, testFilePath = testFilePath formData,
      testFunctionName = testFunctionName formData,
      coveragePercentage = coveragePercentage formData, priority = priority formData,
      lastUpdated = lastUpdated formData, id_m = i, status_m = s\<rparr>"

definition resetForm_c :: "string \<Rightarrow> coverage_page \<Rightarrow> coverage_page" where
  "resetForm_c today st =
     st\<lparr>formData_c :=
          \<lparr>filePath = '''', testFilePath = '''', testFunctionName = '''',
           coveragePercentage = Text '''', priority = ''medium'', lastUpdated = today\<rparr>\<rparr>"

definition handleSubmit_c :: "int \<Rightarrow> string \<Rightarrow> coverage_page \<Rightarrow> coverage_page" where
  "handleSubmit_c now today st =
     (let st1 =
        (case editingMapping st of
           Some editing \<Rightarrow>
             st\<lparr>mappings :=
                  map (\<lambda>mapping.
                         if id_m mapping = id_m editing
                         then spread_formData_c (formData_c st) (id_m mapping) ''active''
                         else mapping) (mappings st),
                editingMapping := None\<rparr>
         | None \<Rightarrow>
             (let newMapping = spread_formData_c (formData_c st) now ''active''
              in st\<lparr>mappings := newMapping # mappings st\<rparr>))
      in (resetForm_c today st1)\<lparr>showForm_c := False\<rparr>)"

record repositories_page =
  repositories_r :: "repo list"
  loading_r :: bool
  showForm_r :: bool
  editingRepo :: "repo option"
  searchTerm_r :: string
  filterStatus :: string
  currentPage_r :: int
  formData_r :: repo_form

text \<open>\<open>{ ...formData, id: repo.id }\<close>: the form's fields and the id, no counters.\<close>

definition spread_formData_r :: "repo_form \<Rightarrow> int \<Rightarrow> repo" where
  "spread_formData_r formData i =
     \<lparr>name = name formData, url = url formData, description = description formData,
      language = language formData, status = status formData, branch = branch formData,
      lastSync = lastSync formData, id_r = i, stars = None, forks = None, issues = None,
      pullRequests = None, coverage = None, lastCommit = None\<rparr>"

definition resetForm_r :: "string \<Rightarrow> repositories_page \<Rightarrow> repositories_page" where
  "resetForm_r today st =
     st\<lparr>formData_r :=
          \<lparr>name = '''', url = '''', description = '''', language = '''',
           status = ''active'', branch = ''main'', lastSync = today\<rparr>\<rparr>"

definition handleSubmit_r :: "int \<Rightarrow> string \<Rightarrow> repositories_page \<Rightarrow> repositories_page" where
  "handleSubmit_r now today st =
     (let st1 =
        (case editingRepo st of
           Some editing \<Rightarrow>
             st\<lparr>repositories_r :=
                  map (\<lambda>repo.
                         if id_r repo = id_r editing
                         then spread_formData_r (formData_r st) (id_r repo)
                         else repo) (repositories_r st),
                editingRepo := None\<rparr>
         | None \<Rightarrow>
             (let newRepo =
                    (spread_formData_r (formData_r st) now)
                      \<lparr>stars := Some 0, forks := Some 0, issues := Some 0,
                       pullRequests := Some 0, coverage := Some 0,
                       lastCommit := Some ''Just now''\<rparr>
              in st\<lparr>repositories_r := newRepo # repositories_r st\<rparr>))
      in (resetForm_r today st1)\<lparr>showForm_r := False\<rparr>)"

section \<open>The analysis context: reducer state and actions\<close>

text \<open>
  \<open>AnalysisContext.jsx\<close>. The type variable \<open>'a\<close> stands for the JSON values the
  backend returns (an analysis result, a repository, a metric); the lists and the
  \<open>stats\<close> object hold such values. \<open>null\<close> is \<open>None\<close>. An object used as a dictionary
  is a map from keys to values.
\<close>

record 'a analysis_state =
  analyses :: "'a list"
  currentAnalysis :: "'a option"
  loading :: bool
  error :: "string option"
  repositories :: "'a list"
  coverageMappings :: "'a list"
  stats :: "string \<rightharpoonup> 'a"

text \<open>
  An action is its \<open>type\<close> with the payload that type carries. \<open>OTHER t\<close> is an action
  whose \<open>type\<close> is the string \<open>t\<close>, any string that is none of the nine names the
  reducer handles.
\<close>

datatype 'a action =
    SET_LOADING bool
  | SET_ERROR string
  | CLEAR_ERROR
  | SET_ANALYSES "'a list"
  | ADD_ANALYSIS 'a
  | SET_CURRENT_ANALYSIS "'a option"
  | SET_REPOSITORIES "'a list"
  | SET_COVERAGE_MAPPINGS "'a list"
  | UPDATE_STATS "string \<rightharpoonup> 'a"
  | OTHER string

fun action_type :: "'a action \<Rightarrow> string" where
  "action_type (SET_LOADING _) = ''SET_LOADING''"
| "action_type (SET_ERROR _) = ''SET_ERROR''"
| "action_type CLEAR_ERROR = ''CLEAR_ERROR''"
| "action_type (SET_ANALYSES _) = ''SET_ANALYSES''"
| "action_type (ADD_ANALYSIS _) = ''ADD_ANALYSIS''"
| "action_type (SET_CURRENT_ANALYSIS _) = ''SET_CURRENT_ANALYSIS''"
| "action_type (SET_REPOSITORIES _) = ''SET_REPOSITORIES''"
| "action_type (SET_COVERAGE_MAPPINGS _) = ''SET_COVERAGE_MAPPINGS''"
| "action_type (UPDATE_STATS _) = ''UPDATE_STATS''"
| "action_type (OTHER t) = t"

text \<open>
  \<open>initialState\<close>; the four counters of \<open>stats\<close> start at the value \<open>zero\<close> (the JSON
  number 0).
\<close>

definition initialState :: "'a \<Rightarrow> 'a analysis_state" where
  "initialState zero =
     \<lparr>analyses = [], currentAnalysis = None, loading = False, error = None,
      repositories = [], coverageMappings = [],
      stats = [''totalAnalyses'' \<mapsto> zero, ''totalTimeSaved'' \<mapsto> zero,
               ''averageRiskScore'' \<mapsto> zero, ''totalTestsSelected'' \<mapsto> zero]\<rparr>"

text \<open>
  \<open>analysisReducer\<close>, case by case. \<open>{ ...state.stats, ...action.payload }\<close> keeps the
  keys of \<open>state.stats\<close> and takes the payload's value wherever the payload has the key.
\<close>

fun analysisReducer :: "'a analysis_state \<Rightarrow> 'a action \<Rightarrow> 'a analysis_state" where
  "analysisReducer state (SET_LOADING payload) = state\<lparr>loading := payload\<rparr>"
| "analysisReducer state (SET_ERROR payload) = state\<lparr>error := Some payload, loading := False\<rparr>"
| "analysisReducer state CLEAR_ERROR = state\<lparr>error := None\<rparr>"
| "analysisReducer state (SET_ANALYSES payload) = state\<lparr>analyses := payload\<rparr>"
| "analysisReducer state (ADD_ANALYSIS payload) =
     state\<lparr>analyses := payload # analyses state, currentAnalysis := Some payload\<rparr>"
| "analysisReducer state (SET_CURRENT_ANALYSIS payload) = state\<lparr>currentAnalysis := payload\<rparr>"
| "analysisReducer state (SET_REPOSITORIES payload) = state\<lparr>repositories := payload\<rparr>"
| "analysisReducer state (SET_COVERAGE_MAPPINGS payload) = state\<lparr>coverageMappings := payload\<rparr>"
| "analysisReducer state (UPDATE_STATS payload) = state\<lparr>stats := stats state ++ payload\<rparr>"
| "analysisReducer state (OTHER t) = state"

text \<open>The nine \<open>case\<close> labels of the reducer's \<open>switch\<close>.\<close>

definition handled_types :: "string list" where
  "handled_types =
     [''SET_LOADING'', ''SET_ERROR'', ''CLEAR_ERROR'', ''SET_ANALYSES'', ''ADD_ANALYSIS'',
      ''SET_CURRENT_ANALYSIS'', ''SET_REPOSITORIES'', ''SET_COVERAGE_MAPPINGS'',
      ''UPDATE_STATS'']"

text \<open>
  The fields of the state, to say which of them an action leaves as they were.
  \<open>written_fields\<close> lists, for each action type, the fields named in its \<open>case\<close>;
  \<open>data_fields\<close> are the fields that hold data (all but \<open>loading\<close> and \<open>error\<close>).
\<close>

datatype field =
    F_analyses
  | F_currentAnalysis
  | F_loading
  | F_error
  | F_repositories
  | F_coverageMappings
  | F_stats

fun unchanged :: "field \<Rightarrow> 'a analysis_state \<Rightarrow> 'a analysis_state \<Rightarrow> bool" where
  "unchanged F_analyses s s' = (analyses s' = analyses s)"
| "unchanged F_currentAnalysis s s' = (currentAnalysis s' = currentAnalysis s)"
| "unchanged F_loading s s' = (loading s' = loading s)"
| "unchanged F_error s s' = (error s' = error s)"
| "unchanged F_repositories s s' = (repositories s' = repositories s)"
| "unchanged F_coverageMappings s s' = (coverageMappings s' = coverageMappings s)"
| "unchanged F_stats s s' = (stats s' = stats s)"

fun written_fields :: "'a action \<Rightarrow> field list" where
  "written_fields (SET_LOADING _) = [F_loading]"
| "written_fields (SET_ERROR _) = [F_error, F_loading]"
| "written_fields CLEAR_ERROR = [F_error]"
| "written_fields (SET_ANALYSES _) = [F_analyses]"
| "written_fields (ADD_ANALYSIS _) = [F_analyses, F_currentAnalysis]"
| "written_fields (SET_CURRENT_ANALYSIS _) = [F_currentAnalysis]"
| "written_fields (SET_REPOSITORIES _) = [F_repositories]"
| "written_fields (SET_COVERAGE_MAPPINGS _) = [F_coverageMappings]"
| "written_fields (UPDATE_STATS _) = [F_stats]"
| "written_fields (OTHER _) = []"

definition data_fields ::
  "'a analysis_state \<Rightarrow> 'a list \<times> 'a option \<times> 'a list \<times> 'a list \<times> (string \<rightharpoonup> 'a)" where
  "data_fields s = (analyses s, currentAnalysis s, repositories s, coverageMappings s, stats s)"

section \<open>The analysis context: requests\<close>

text \<open>
  What the provider does is recorded in order: each \<open>dispatch\<close>, each \<open>fetch\<close> (its URL)
  and each \<open>console.error\<close>. The provider's world is the reducer state, that record of
  effects, and the environment setting \<open>VITE_API_BASE_URL\<close>.
\<close>

datatype js_error = Error (message: string)

datatype 'a effect =
    Dispatched "'a action"
  | Fetched string
  | ConsoleError string js_error

record 'a world =
  state :: "'a analysis_state"
  effects :: "'a effect list"
  VITE_API_BASE_URL :: "string option"

definition dispatch :: "'a action \<Rightarrow> 'a world \<Rightarrow> 'a world" where
  "dispatch a w =
     w\<lparr>state := analysisReducer (state w) a, effects := effects w @ [Dispatched a]\<rparr>"

text \<open>\<open>import.meta.env.VITE_API_BASE_URL || 'http://localhost:8000'\<close>\<close>

definition API_BASE_URL :: "'a world \<Rightarrow> string" where
  "API_BASE_URL w =
     (case VITE_API_BASE_URL w of
        None \<Rightarrow> ''http://localhost:8000''
      | Some u \<Rightarrow> if u = [] then ''http://localhost:8000'' else u)"

text \<open>
  The outcome of \<open>fetch\<close> is an input: the promise rejects with an error, or resolves to
  a response with a status, whose \<open>json()\<close> rejects with an error or gives the parsed
  body (of type \<open>'b\<close>). \<open>response.ok\<close> is a status from 200 to 299.
\<close>

datatype 'b response = Response (status_of: nat) (json: "js_error + 'b")

datatype 'b fetch_outcome = Rejects js_error | Resolves "'b response"

definition ok :: "'b response \<Rightarrow> bool" where
  "ok response = (200 \<le> status_of response \<and> status_of response \<le> 299)"

text \<open>A number in a template literal: its decimal digits.\<close>

fun String_of_nat :: "nat \<Rightarrow> string" where
  "String_of_nat n =
     (if n < 10 then [''0123456789'' ! n]
      else String_of_nat (n div 10) @ [''0123456789'' ! (n mod 10)])"

declare String_of_nat.simps [simp del]

text \<open>
  The \<open>try\<close> block of \<open>apiCall\<close> after the two dispatches: it throws (\<open>Inl\<close>) or returns
  the parsed body (\<open>Inr\<close>).
\<close>

definition try_fetch :: "'b fetch_outcome \<Rightarrow> js_error + 'b" where
  "try_fetch outcome =
     (case outcome of
        Rejects e \<Rightarrow> Inl e
      | Resolves response \<Rightarrow>
          if \<not> ok response
          then Inl (Error (''HTTP error! status: '' @ String_of_nat (status_of response)))
          else json response)"

text \<open>\<open>error.message || 'An error occurred'\<close>\<close>

definition errorMessage :: "js_error \<Rightarrow> string" where
  "errorMessage e = (if message e = [] then ''An error occurred'' else message e)"

text \<open>
  \<open>apiCall(endpoint, options)\<close>. The \<open>options\<close> (method, body, headers) shape the
  request that is sent and nothing else in \<open>apiCall\<close>; the outcome of the request is an
  input, so \<open>options\<close> is not a parameter of the model.
  The result is the value the promise settles with: \<open>Inl\<close> the rethrown error, \<open>Inr\<close> the
  data. The \<open>finally\<close> block runs after the \<open>catch\<close> block and before a caller goes on.
\<close>

definition apiCall :: "string \<Rightarrow> 'b fetch_outcome \<Rightarrow> 'a world \<Rightarrow> (js_error + 'b) \<times> 'a world" where
  "apiCall endpoint outcome w =
     (let w1 = dispatch (SET_LOADING True) w;
          w2 = dispatch CLEAR_ERROR w1;
          w3 = w2\<lparr>effects := effects w2 @ [Fetched (API_BASE_URL w2 @ endpoint)]\<rparr>
      in case try_fetch outcome of
           Inr data \<Rightarrow> (Inr data, dispatch (SET_LOADING False) w3)
         | Inl e \<Rightarrow>
             (let w4 = dispatch (SET_ERROR (errorMessage e)) w3
              in (Inl e, dispatch (SET_LOADING False) w4)))"

definition console_error :: "string \<Rightarrow> js_error \<Rightarrow> 'a world \<Rightarrow> 'a world" where
  "console_error label e w = w\<lparr>effects := effects w @ [ConsoleError label e]\<rparr>"

definition getAnalyses :: "'a list fetch_outcome \<Rightarrow> 'a world \<Rightarrow> (js_error + 'a list) \<times> 'a world" where
  "getAnalyses outcome w =
     (case apiCall ''/api/v1/analyses'' outcome w of
        (Inr result, w') \<Rightarrow> (Inr result, dispatch (SET_ANALYSES result) w')
      | (Inl e, w') \<Rightarrow> (Inl e, console_error ''Failed to fetch analyses:'' e w'))"

definition getRepositories :: "'a list fetch_outcome \<Rightarrow> 'a world \<Rightarrow> (js_error + 'a list) \<times> 'a world" where
  "getRepositories outcome w =
     (case apiCall ''/api/v1/repositories'' outcome w of
        (Inr result, w') \<Rightarrow> (Inr result, dispatch (SET_REPOSITORIES result) w')
      | (Inl e, w') \<Rightarrow> (Inl e, console_error ''Failed to fetch repositories:'' e w'))"

definition getCoverageMappings :: "'a list fetch_outcome \<Rightarrow> 'a world \<Rightarrow> (js_error + 'a list) \<times> 'a world" where
  "getCoverageMappings outcome w =
     (case apiCall ''/api/v1/coverage-mappings'' outcome w of
        (Inr result, w') \<Rightarrow> (Inr result, dispatch (SET_COVERAGE_MAPPINGS result) w')
      | (Inl e, w') \<Rightarrow> (Inl e, console_error ''Failed to fetch coverage mappings:'' e w'))"

definition getMetrics :: "(string \<rightharpoonup> 'a) fetch_outcome \<Rightarrow> 'a world \<Rightarrow> (js_error + (string \<rightharpoonup> 'a)) \<times> 'a world" where
  "getMetrics outcome w =
     (case apiCall ''/api/v1/metrics'' outcome w of
        (Inr result, w') \<Rightarrow> (Inr result, dispatch (UPDATE_STATS result) w')
      | (Inl e, w') \<Rightarrow> (Inl e, console_error ''Failed to fetch metrics:'' e w'))"

text \<open>
  \<open>getHealthStatus\<close> returns the body and dispatches nothing of its own.
\<close>

definition getHealthStatus :: "'b fetch_outcome \<Rightarrow> 'a world \<Rightarrow> (js_error + 'b) \<times> 'a world" where
  "getHealthStatus outcome w =
     (case apiCall ''/api/v1/health'' outcome w of
        (Inr result, w') \<Rightarrow> (Inr result, w')
      | (Inl e, w') \<Rightarrow> (Inl e, console_error ''Health check failed:'' e w'))"

text \<open>
  \<open>analyzeImpact\<close> and \<open>createCoverageMapping\<close> pass \<open>options\<close> with the method
  \<open>POST\<close> and the body \<open>JSON.stringify(...)\<close>. The options shape the request that is
  sent; the outcome of the request is an input here and the record of effects keeps the
  URL. \<open>JSON.stringify\<close> is evaluated inside the wrapper's \<open>try\<close> block before \<open>apiCall\<close>
  is entered: its outcome \<open>body\<close> is an input too, \<open>Inl\<close> the error it throws or \<open>Inr\<close>
  the text (\<open>None\<close> for \<open>undefined\<close>).
\<close>

definition analyzeImpact ::
  "js_error + string option \<Rightarrow> 'a fetch_outcome \<Rightarrow> 'a world \<Rightarrow> (js_error + 'a) \<times> 'a world" where
  "analyzeImpact body outcome w =
     (case body of
        Inl e \<Rightarrow> (Inl e, console_error ''Analysis failed:'' e w)
      | Inr _ \<Rightarrow>
          (case apiCall ''/api/v1/analyze'' outcome w of
             (Inr result, w') \<Rightarrow> (Inr result, dispatch (ADD_ANALYSIS result) w')
           | (Inl e, w') \<Rightarrow> (Inl e, console_error ''Analysis failed:'' e w')))"

text \<open>
  \<open>createCoverageMapping\<close>: the \<open>POST\<close>, then \<open>await getCoverageMappings()\<close> (a second
  request, with its own outcome \<open>refresh\<close>), then the body of the \<open>POST\<close> is returned. An
  error of either request is caught, logged and rethrown.
\<close>

definition createCoverageMapping ::
  "js_error + string option \<Rightarrow> 'b fetch_outcome \<Rightarrow> 'a list fetch_outcome \<Rightarrow> 'a world
     \<Rightarrow> (js_error + 'b) \<times> 'a world" where
  "createCoverageMapping body outcome refresh w =
     (case body of
        Inl e \<Rightarrow> (Inl e, console_error ''Failed to create coverage mapping:'' e w)
      | Inr _ \<Rightarrow>
          (case apiCall ''/api/v1/coverage-mappings'' outcome w of
             (Inl e, w') \<Rightarrow> (Inl e, console_error ''Failed to create coverage mapping:'' e w')
           | (Inr result, w') \<Rightarrow>
               (case getCoverageMappings refresh w' of
                  (Inl e, w'') \<Rightarrow>
                    (Inl e, console_error ''Failed to create coverage mapping:'' e w'')
                | (Inr _, w'') \<Rightarrow> (Inr result, w''))))"

definition clearError :: "'a world \<Rightarrow> 'a world" where
  "clearError w = dispatch CLEAR_ERROR w"

text \<open>
  \<open>Navbar.jsx\<close>, the error banner: \<open>{error && (... {error} ...)}\<close>. The banner shows
  the text of \<open>error\<close> when \<open>error\<close> is truthy (neither \<open>null\<close> nor the empty string), and
  nothing otherwise.
\<close>

definition Navbar_errorBanner :: "'a world \<Rightarrow> string option" where
  "Navbar_errorBanner w =
     (case error (state w) of
        None \<Rightarrow> None
      | Some text \<Rightarrow> if text = [] then None else Some text)"

section \<open>Sample inputs\<close>

text \<open>
  Concrete inputs on which the results below are evaluated: a filled form on each page
  over the mock data, and the provider's world before any request.
\<close>

definition example_page_c :: "mapping option \<Rightarrow> coverage_page" where
  "example_page_c editing =
     \<lparr>mappings = mockMappings, loading_c = False, showForm_c = True,
      editingMapping = editing, searchTerm_c = '''', filterType = ''all'',
      currentPage_c = 1,
      formData_c =
        \<lparr>filePath = ''src/App.jsx'', testFilePath = ''src/__tests__/App.test.jsx'',
         testFunctionName = ''App tests'', coveragePercentage = Text ''80'',
         priority = ''low'', lastUpdated = ''2024-02-01''\<rparr>\<rparr>"

definition example_page_r :: "repo option \<Rightarrow> repositories_page" where
  "example_page_r editing =
     \<lparr>repositories_r = mockRepositories, loading_r = False, showForm_r = True,
      editingRepo = editing, searchTerm_r = '''', filterStatus = ''all'',
      currentPage_r = 1,
      formData_r =
        \<lparr>name = ''cli-tool'', url = ''https://github.com/company/cli-tool'',
         description = ''Command line client'', language = ''Go'', status = ''archived'',
         branch = ''main'', lastSync = ''2024-02-01''\<rparr>\<rparr>"

definition initialWorld :: "int world" where
  "initialWorld = \<lparr>state = initialState 0, effects = [], VITE_API_BASE_URL = None\<rparr>"

section \<open>Search and select filter: results\<close>

lemma js_includes_sublist: "js_includes s t = sublist t s"
  by (induction s) (simp_all add: sublist_Cons_right)

lemma toLowerCase_Nil: "toLowerCase [] = []"
  by (simp add: toLowerCase_def)

lemma in_filteredMappings:
  "m \<in> set (filteredMappings ms q sel) \<longleftrightarrow>
     m \<in> set ms \<and>
     (sublist (toLowerCase q) (toLowerCase (filePath m)) \<or>
      sublist (toLowerCase q) (toLowerCase (testFilePath m)) \<or>
      sublist (toLowerCase q) (toLowerCase (testFunctionName m))) \<and>
     (sel = ''all'' \<or> priority m = sel)"
  by (simp add: filteredMappings_def js_includes_sublist)

lemma in_filteredRepositories:
  "r \<in> set (filteredRepositories rs q sel) \<longleftrightarrow>
     r \<in> set rs \<and>
     (sublist (toLowerCase q) (toLowerCase (name r)) \<or>
      sublist (toLowerCase q) (toLowerCase (description r)) \<or>
      sublist (toLowerCase q) (toLowerCase (language r))) \<and>
     (sel = ''all'' \<or> status r = sel)"
  by (simp add: filteredRepositories_def js_includes_sublist)

text \<open>
  C1, as stated, at a concrete input: with the search box empty and the priority select at
  \<open>low\<close>, the first mock mapping contains the lowercased term in its lowercased
  \<open>filePath\<close> and is not in the filtered list; the same on the Repositories page with the
  status select at \<open>inactive\<close>.
\<close>

theorem search_alone_counterexample:
  "sublist (toLowerCase '''') (toLowerCase (filePath (mockMappings ! 0))) \<and>
   mockMappings ! 0 \<in> set mockMappings \<and>
   mockMappings ! 0 \<notin> set (filteredMappings mockMappings '''' ''low'') \<and>
   sublist (toLowerCase '''') (toLowerCase (name (mockRepositories ! 0))) \<and>
   mockRepositories ! 0 \<in> set mockRepositories \<and>
   mockRepositories ! 0 \<notin> set (filteredRepositories mockRepositories '''' ''inactive'')"
  by (simp add: mockMappings_def mockRepositories_def in_filteredMappings
      in_filteredRepositories toLowerCase_Nil)

text \<open>
  C1, amended: a record is in the filtered list exactly when it is in the input list, the
  lowercased search term is a contiguous substring of at least one of its lowercased
  searched fields (\<open>filePath\<close>, \<open>testFilePath\<close>, \<open>testFunctionName\<close> in Coverage;
  \<open>name\<close>, \<open>description\<close>, \<open>language\<close> in Repositories), and the select filter is
  \<open>all\<close> or equals the record's \<open>priority\<close> (Coverage) or \<open>status\<close> (Repositories).
  The filtered list keeps the input's order.
\<close>

theorem filtered_iff_search_and_select:
  "(m \<in> set (filteredMappings ms q sel) \<longleftrightarrow>
      m \<in> set ms \<and>
      (sublist (toLowerCase q) (toLowerCase (filePath m)) \<or>
       sublist (toLowerCase q) (toLowerCase (testFilePath m)) \<or>
       sublist (toLowerCase q) (toLowerCase (testFunctionName m))) \<and>
      (sel = ''all'' \<or> priority m = sel)) \<and>
   (r \<in> set (filteredRepositories rs q sel) \<longleftrightarrow>
      r \<in> set rs \<and>
      (sublist (toLowerCase q) (toLowerCase (name r)) \<or>
       sublist (toLowerCase q) (toLowerCase (description r)) \<or>
       sublist (toLowerCase q) (toLowerCase (language r))) \<and>
      (sel = ''all'' \<or> status r = sel)) \<and>
   subseq (filteredMappings ms q sel) ms \<and>
   subseq (filteredRepositories rs q sel) rs"
proof -
  have "subseq (filteredMappings ms q sel) ms"
    by (simp add: filteredMappings_def)
  moreover have "subseq (filteredRepositories rs q sel) rs"
    by (simp add: filteredRepositories_def)
  ultimately show ?thesis
    using in_filteredMappings [of m ms q sel]
      in_filteredRepositories [of r rs q sel]
    by blast
qed

text \<open>
  C2: with the select at a value \<open>v\<close> other than \<open>all\<close>, every record of the filtered list
  has \<open>priority\<close> (Coverage) or \<open>status\<close> (Repositories) equal to \<open>v\<close>, and the filtered
  list is a sub-list of the input list (so its records are records of the input).
\<close>

theorem select_filter_subset:
  assumes "v \<noteq> ''all''"
  shows "(\<forall>m \<in> set (filteredMappings ms q v). priority m = v) \<and>
         set (filteredMappings ms q v) \<subseteq> set ms \<and>
         subseq (filteredMappings ms q v) ms \<and>
         (\<forall>r \<in> set (filteredRepositories rs q v). status r = v) \<and>
         set (filteredRepositories rs q v) \<subseteq> set rs \<and>
         subseq (filteredRepositories rs q v) rs"
proof -
  have "\<forall>m \<in> set (filteredMappings ms q v). priority m = v"
    using assms by (simp add: in_filteredMappings)
  moreover have "\<forall>r \<in> set (filteredRepositories rs q v). status r = v"
    using assms by (simp add: in_filteredRepositories)
  moreover have "set (filteredMappings ms q v) \<subseteq> set ms"
    by (auto simp: in_filteredMappings)
  moreover have "set (filteredRepositories rs q v) \<subseteq> set rs"
    by (auto simp: in_filteredRepositories)
  moreover have "subseq (filteredMappings ms q v) ms"
    by (simp add: filteredMappings_def)
  moreover have "subseq (filteredRepositories rs q v) rs"
    by (simp add: filteredRepositories_def)
  ultimately show ?thesis by blast
qed

theorem select_filter_subset_witness:
  "''high'' \<noteq> ''all'' \<and> ''inactive'' \<noteq> ''all'' \<and>
   map id_m (filteredMappings mockMappings ''TEST'' ''high'') = [1, 4] \<and>
   list_all (\<lambda>m. priority m = ''high'') (filteredMappings mockMappings ''TEST'' ''high'') \<and>
   subseq (filteredMappings mockMappings ''TEST'' ''high'') mockMappings \<and>
   map id_r (filteredRepositories mockRepositories ''Pipe'' ''inactive'') = [4] \<and>
   list_all (\<lambda>r. status r = ''inactive'')
     (filteredRepositories mockRepositories ''Pipe'' ''inactive'') \<and>
   subseq (filteredRepositories mockRepositories ''Pipe'' ''inactive'') mockRepositories"
proof -
  have ids: "map id_m (filteredMappings mockMappings ''TEST'' ''high'') = [1, 4]"
    "map id_r (filteredRepositories mockRepositories ''Pipe'' ''inactive'') = [4]"
    by (simp_all add: filteredMappings_def filteredRepositories_def mockMappings_def
        mockRepositories_def toLowerCase_def toLowerCase_char_def)
  show ?thesis
    using ids
      select_filter_subset [of "''high''" mockMappings "''TEST''" mockRepositories]
      select_filter_subset [of "''inactive''" mockMappings "''Pipe''" mockRepositories]
    by (simp add: list_all_iff)
qed
section \<open>Pagination: results\<close>

lemma ceil_div_nat:
  assumes "0 < k"
  shows "\<lceil>real n / real k\<rceil> = int ((n + k - 1) div k)"
proof (rule ceiling_unique)
  let ?q = "(n + k - 1) div k"
  have split: "n + k - 1 = ?q * k + (n + k - 1) mod k"
    by simp
  have rem: "(n + k - 1) mod k < k"
    using assms by simp
  have up: "n \<le> ?q * k"
    using split rem by linarith
  have lo: "?q * k < n + k"
    using split assms by linarith
  have "real n \<le> real (?q * k)"
    using up by (simp only: of_nat_le_iff)
  then show "real n / real k \<le> of_int (int ?q)"
    using assms by (simp add: pos_divide_le_eq)
  have "real (?q * k) < real (n + k)"
    using lo by (simp only: of_nat_less_iff)
  then have "(real ?q - 1) * real k < real n"
    by (simp add: algebra_simps)
  then show "of_int (int ?q) - 1 < real n / real k"
    using assms by (simp add: pos_less_divide_eq)
qed

lemma take_drop_page:
  "take (min (q * k + k) (length xs) - min (q * k) (length xs)) (drop (min (q * k) (length xs)) xs)
     = take k (drop (q * k) xs)"
proof (cases "q * k \<le> length xs")
  case True
  then have "min (q * k + k) (length xs) - q * k = min k (length xs - q * k)"
    by linarith
  moreover have "take (min k (length ys)) ys = take k ys" for ys :: "'a list"
    by (cases "k \<le> length ys") (simp_all add: min_def)
  from this [of "drop (q * k) xs"]
  have "take (min k (length xs - q * k)) (drop (q * k) xs) = take k (drop (q * k) xs)"
    by simp
  ultimately show ?thesis
    using True by (simp add: min_absorb1)
next
  case False
  then show ?thesis by simp
qed

text \<open>From page 1 on, a page is \<open>itemsPerPage\<close> records after the pages before it.\<close>

lemma js_slice_page:
  assumes "1 \<le> p"
  shows "js_slice xs ((p - 1) * int k) (p * int k) = take k (drop (nat (p - 1) * k) xs)"
proof -
  define q where "q = nat (p - 1)"
  have p: "p = int q + 1"
    using assms by (simp add: q_def)
  have s: "(p - 1) * int k = int (q * k)" and f: "p * int k = int (q * k + k)"
    by (simp_all add: p algebra_simps)
  have "js_slice xs (int (q * k)) (int (q * k + k)) =
          take (min (q * k + k) (length xs) - min (q * k) (length xs))
            (drop (min (q * k) (length xs)) xs)"
    unfolding js_slice_def Let_def
    by (simp add: nat_diff_distrib' flip: of_nat_min del: of_nat_mult of_nat_add)
  then show ?thesis
    unfolding s f by (simp add: take_drop_page q_def)
qed

lemma concat_pages:
  "concat (map (\<lambda>p. take k (drop (nat (p - 1) * k) xs)) [1..int T]) = take (T * k) xs"
proof (induction T)
  case 0
  then show ?case by simp
next
  case (Suc T)
  have u: "[1..1 + int T] = [1..int T] @ [1 + int T]"
    using upto_rec2 [of 1 "1 + int T"] by simp
  have "take (Suc T * k) xs = take (T * k + k) xs"
    by (simp add: add.commute)
  also have "\<dots> = take (T * k) xs @ take k (drop (T * k) xs)"
    by (rule take_add)
  finally show ?case
    using Suc by (simp add: u add.commute)
qed

lemma pages_cover:
  assumes "0 < k"
  shows "length xs \<le> ((length xs + k - 1) div k) * k"
proof -
  have "length xs + k - 1 = ((length xs + k - 1) div k) * k + (length xs + k - 1) mod k"
    by simp
  moreover have "(length xs + k - 1) mod k < k"
    using assms by simp
  ultimately show ?thesis by linarith
qed

lemma last_page_start:
  assumes "0 < k" and "0 < length xs"
  shows "((length xs + k - 1) div k - 1) * k < length xs"
proof -
  have "k \<le> length xs + k - 1"
    using assms by linarith
  then have "0 < (length xs + k - 1) div k"
    using assms(1) by (simp add: div_greater_zero_iff)
  then obtain q where q: "(length xs + k - 1) div k = Suc q"
    by (cases "(length xs + k - 1) div k") simp_all
  have "((length xs + k - 1) div k) * k \<le> length xs + k - 1"
    by simp
  then have "Suc q * k \<le> length xs + k - 1"
    unfolding q .
  then have "q * k < length xs"
    using assms by simp
  then show ?thesis
    unfolding q by simp
qed

lemma page_length_le:
  assumes "1 \<le> p"
  shows "length (js_slice xs ((p - 1) * int k) (p * int k)) \<le> k"
  by (simp add: js_slice_page [OF assms])

lemma last_page_length:
  assumes "0 < k" and "1 \<le> \<lceil>real (length xs) / real k\<rceil>"
  shows "int (length (js_slice xs ((\<lceil>real (length xs) / real k\<rceil> - 1) * int k)
                  (\<lceil>real (length xs) / real k\<rceil> * int k)))
         = int (length xs) - (\<lceil>real (length xs) / real k\<rceil> - 1) * int k"
proof -
  let ?T = "(length xs + k - 1) div k"
  have T: "\<lceil>real (length xs) / real k\<rceil> = int ?T"
    using assms(1) by (rule ceil_div_nat)
  have pos: "0 < length xs"
    using assms(2) by (cases xs) simp_all
  have lo: "(?T - 1) * k < length xs"
    using assms(1) pos by (rule last_page_start)
  have hi: "length xs \<le> ?T * k"
    using assms(1) by (rule pages_cover)
  have T1: "1 \<le> ?T"
    using assms(2) T by simp
  then have "?T * k = (?T - 1) * k + k"
    by (simp add: diff_mult_distrib)
  with hi have rest: "length xs - (?T - 1) * k \<le> k"
    by linarith
  have "length (js_slice xs ((int ?T - 1) * int k) (int ?T * int k)) = length xs - (?T - 1) * k"
    using T1 rest by (simp add: js_slice_page min_absorb2 nat_diff_distrib')
  then show ?thesis
    using lo T1 unfolding T by (simp add: of_nat_diff)
qed

lemma pages_concat:
  assumes "0 < k"
  shows "concat (map (\<lambda>p. js_slice xs ((p - 1) * int k) (p * int k))
           [1..\<lceil>real (length xs) / real k\<rceil>]) = xs"
proof -
  let ?T = "(length xs + k - 1) div k"
  have "map (\<lambda>p. js_slice xs ((p - 1) * int k) (p * int k)) [1..int ?T]
          = map (\<lambda>p. take k (drop (nat (p - 1) * k) xs)) [1..int ?T]"
    by (rule map_cong) (simp_all add: js_slice_page)
  then have "concat (map (\<lambda>p. js_slice xs ((p - 1) * int k) (p * int k)) [1..int ?T])
          = take (?T * k) xs"
    by (simp only: concat_pages)
  then show ?thesis
    using pages_cover [OF assms, of xs] by (simp add: ceil_div_nat [OF assms])
qed

lemma page_beyond_empty:
  assumes "0 < k" and "\<lceil>real (length xs) / real k\<rceil> < p"
  shows "js_slice xs ((p - 1) * int k) (p * int k) = []"
proof -
  let ?T = "(length xs + k - 1) div k"
  have "int ?T < p"
    using assms by (simp add: ceil_div_nat)
  then have p: "1 \<le> p" and "?T \<le> nat (p - 1)"
    by simp_all
  then have "?T * k \<le> nat (p - 1) * k"
    by simp
  with pages_cover [OF assms(1), of xs] have "length xs \<le> nat (p - 1) * k"
    by linarith
  then show ?thesis
    by (simp add: js_slice_page [OF p])
qed

lemma page_of_index:
  assumes "0 < k" and "i < length xs"
  shows "js_slice xs ((int (i div k) + 1 - 1) * int k) ((int (i div k) + 1) * int k) ! (i mod k)
           = xs ! i"
proof -
  have split: "i div k * k + i mod k = i"
    by simp
  have "i div k * k \<le> i"
    by simp
  then have "i div k * k \<le> length xs"
    using assms(2) by linarith
  then have "drop (i div k * k) xs ! (i mod k) = xs ! (i div k * k + i mod k)"
    by simp
  then have "drop (i div k * k) xs ! (i mod k) = xs ! i"
    by (simp only: split)
  moreover have "i mod k < k"
    using assms(1) by simp
  ultimately show ?thesis
    using js_slice_page [of "int (i div k) + 1" xs k]
    by (simp add: add.commute)
qed

lemma totalPages_m_nat: "totalPages_m xs = \<lceil>real (length xs) / real 10\<rceil>"
  by (simp add: totalPages_m_def Math_ceil_def itemsPerPage_m_def)

lemma totalPages_r_nat: "totalPages_r xs = \<lceil>real (length xs) / real 8\<rceil>"
  by (simp add: totalPages_r_def Math_ceil_def itemsPerPage_r_def)

lemma paginatedMappings_nat:
  "paginatedMappings xs p = js_slice xs ((p - 1) * int 10) (p * int 10)"
  by (simp add: paginatedMappings_def itemsPerPage_m_def)

lemma paginatedRepositories_nat:
  "paginatedRepositories xs p = js_slice xs ((p - 1) * int 8) (p * int 8)"
  by (simp add: paginatedRepositories_def itemsPerPage_r_def)

text \<open>
  C3: for a filtered list \<open>xs\<close> of length \<open>n\<close> and a page number \<open>p\<close> with
  \<open>1 \<le> p \<le> totalPages\<close>, the displayed slice has at most \<open>itemsPerPage\<close> records (10 in
  Coverage, 8 in Repositories), and on the last page, \<open>p = totalPages\<close>, it has exactly
  \<open>n - (totalPages - 1) * itemsPerPage\<close> records.
\<close>

theorem page_length:
  "(1 \<le> p \<and> p \<le> totalPages_m xs \<longrightarrow>
      int (length (paginatedMappings xs p)) \<le> itemsPerPage_m \<and>
      (p = totalPages_m xs \<longrightarrow>
         int (length (paginatedMappings xs p))
           = int (length xs) - (totalPages_m xs - 1) * itemsPerPage_m)) \<and>
   (1 \<le> p \<and> p \<le> totalPages_r ys \<longrightarrow>
      int (length (paginatedRepositories ys p)) \<le> itemsPerPage_r \<and>
      (p = totalPages_r ys \<longrightarrow>
         int (length (paginatedRepositories ys p))
           = int (length ys) - (totalPages_r ys - 1) * itemsPerPage_r))"
proof -
  have m1: "int (length (paginatedMappings xs p)) \<le> itemsPerPage_m" if "1 \<le> p"
    using page_length_le [OF that, of xs 10]
    unfolding paginatedMappings_nat itemsPerPage_m_def by simp
  have m2: "int (length (paginatedMappings xs (totalPages_m xs)))
              = int (length xs) - (totalPages_m xs - 1) * itemsPerPage_m"
    if "1 \<le> totalPages_m xs"
    using last_page_length [of 10 xs] that
    unfolding paginatedMappings_nat totalPages_m_nat itemsPerPage_m_def by simp
  have r1: "int (length (paginatedRepositories ys p)) \<le> itemsPerPage_r" if "1 \<le> p"
    using page_length_le [OF that, of ys 8]
    unfolding paginatedRepositories_nat itemsPerPage_r_def by simp
  have r2: "int (length (paginatedRepositories ys (totalPages_r ys)))
              = int (length ys) - (totalPages_r ys - 1) * itemsPerPage_r"
    if "1 \<le> totalPages_r ys"
    using last_page_length [of 8 ys] that
    unfolding paginatedRepositories_nat totalPages_r_nat itemsPerPage_r_def by simp
  show ?thesis
    using m1 m2 r1 r2 by blast
qed

theorem page_length_witness:
  "(1::int) \<le> 3 \<and> totalPages_m [1..<24::nat] = 3 \<and> totalPages_r [1..<24::nat] = 3 \<and>
   int (length (paginatedMappings [1..<24::nat] 3)) \<le> 10 \<and>
   length (paginatedMappings [1..<24::nat] 3) = 3 \<and>
   int (length (paginatedRepositories [1..<24::nat] 3)) \<le> 8 \<and>
   length (paginatedRepositories [1..<24::nat] 3) = 7"
proof -
  have T: "totalPages_m [1..<24::nat] = 3" "totalPages_r [1..<24::nat] = 3"
    by (simp_all add: totalPages_m_nat totalPages_r_nat)
  show ?thesis
    using T page_length [of 3 "[1..<24::nat]" "[1..<24::nat]"]
    by (simp add: itemsPerPage_m_def itemsPerPage_r_def)
qed

text \<open>
  C10: the slices of pages 1, 2, ..., \<open>totalPages\<close>, concatenated in page order, are
  exactly the filtered list: the record at index \<open>i\<close> is on page \<open>i div itemsPerPage + 1\<close>
  at offset \<open>i mod itemsPerPage\<close>, so every record is on one page and the order is kept.
  The slice of any page number greater than \<open>totalPages\<close> is empty.
\<close>

theorem pages_partition:
  "concat (map (paginatedMappings xs) [1..totalPages_m xs]) = xs \<and>
   (i < length xs \<longrightarrow> paginatedMappings xs (int (i div 10) + 1) ! (i mod 10) = xs ! i) \<and>
   (totalPages_m xs < p \<longrightarrow> paginatedMappings xs p = []) \<and>
   concat (map (paginatedRepositories ys) [1..totalPages_r ys]) = ys \<and>
   (j < length ys \<longrightarrow> paginatedRepositories ys (int (j div 8) + 1) ! (j mod 8) = ys ! j) \<and>
   (totalPages_r ys < p \<longrightarrow> paginatedRepositories ys p = [])"
proof -
  have "concat (map (paginatedMappings xs) [1..totalPages_m xs]) = xs"
    using pages_concat [of 10 xs]
    unfolding paginatedMappings_nat [abs_def] totalPages_m_nat by simp
  moreover have "concat (map (paginatedRepositories ys) [1..totalPages_r ys]) = ys"
    using pages_concat [of 8 ys]
    unfolding paginatedRepositories_nat [abs_def] totalPages_r_nat by simp
  moreover have "paginatedMappings xs p = []" if "totalPages_m xs < p"
    using page_beyond_empty [of 10 xs p] that
    unfolding paginatedMappings_nat totalPages_m_nat by simp
  moreover have "paginatedRepositories ys p = []" if "totalPages_r ys < p"
    using page_beyond_empty [of 8 ys p] that
    unfolding paginatedRepositories_nat totalPages_r_nat by simp
  moreover have "paginatedMappings xs (int (i div 10) + 1) ! (i mod 10) = xs ! i"
    if "i < length xs"
    using page_of_index [of 10 i xs] that unfolding paginatedMappings_nat by simp
  moreover have "paginatedRepositories ys (int (j div 8) + 1) ! (j mod 8) = ys ! j"
    if "j < length ys"
    using page_of_index [of 8 j ys] that unfolding paginatedRepositories_nat by simp
  ultimately show ?thesis by blast
qed

theorem pages_partition_witness:
  "totalPages_m [1..<24::nat] = 3 \<and> totalPages_r [1..<24::nat] = 3 \<and>
   concat (map (paginatedMappings [1..<24::nat]) [1..3]) = [1..<24] \<and>
   (15::nat) < length [1..<24::nat] \<and>
   paginatedMappings [1..<24::nat] 2 ! 5 = 16 \<and>
   paginatedMappings [1..<24::nat] 4 = [] \<and>
   concat (map (paginatedRepositories [1..<24::nat]) [1..3]) = [1..<24] \<and>
   paginatedRepositories [1..<24::nat] 2 ! 7 = 16 \<and>
   paginatedRepositories [1..<24::nat] 4 = []"
proof -
  have T: "totalPages_m [1..<24::nat] = 3" "totalPages_r [1..<24::nat] = 3"
    by (simp_all add: totalPages_m_nat totalPages_r_nat)
  show ?thesis
    using T pages_partition [of "[1..<24::nat]" 15 4 "[1..<24::nat]" 15]
    by simp
qed

section \<open>The add/edit forms: results\<close>

lemma mappings_handleSubmit_c:
  "mappings (handleSubmit_c now today st) =
     (case editingMapping st of
        Some editing \<Rightarrow>
          map (\<lambda>mapping. if id_m mapping = id_m editing
                 then spread_formData_c (formData_c st) (id_m mapping) ''active''
                 else mapping) (mappings st)
      | None \<Rightarrow> spread_formData_c (formData_c st) now ''active'' # mappings st)"
  by (simp add: handleSubmit_c_def resetForm_c_def Let_def split: option.split)

lemma repositories_handleSubmit_r:
  "repositories_r (handleSubmit_r now today st) =
     (case editingRepo st of
        Some editing \<Rightarrow>
          map (\<lambda>repo. if id_r repo = id_r editing
                 then spread_formData_r (formData_r st) (id_r repo)
                 else repo) (repositories_r st)
      | None \<Rightarrow>
          (spread_formData_r (formData_r st) now)
            \<lparr>stars := Some 0, forks := Some 0, issues := Some 0, pullRequests := Some 0,
             coverage := Some 0, lastCommit := Some ''Just now''\<rparr> # repositories_r st)"
  by (simp add: handleSubmit_r_def resetForm_r_def Let_def split: option.split)

lemma id_m_spread [simp]: "id_m (spread_formData_c fd i s) = i"
  by (simp add: spread_formData_c_def)

lemma id_r_spread [simp]: "id_r (spread_formData_r fd i) = i"
  by (simp add: spread_formData_r_def)

text \<open>
  C4: in add mode (no editing target) \<open>handleSubmit\<close> prepends the new record, so the
  list is one longer; in edit mode (editing target \<open>e\<close>) the list keeps its length and
  its ids, the record at each position whose id is that of \<open>e\<close> is replaced by the
  form's fields under the same id, and every other record is left as it was.
\<close>

theorem handleSubmit_count:
  "(editingMapping st = None \<longrightarrow>
      mappings (handleSubmit_c now today st)
        = spread_formData_c (formData_c st) now ''active'' # mappings st \<and>
      length (mappings (handleSubmit_c now today st)) = length (mappings st) + 1) \<and>
   (editingMapping st = Some e \<longrightarrow>
      length (mappings (handleSubmit_c now today st)) = length (mappings st) \<and>
      map id_m (mappings (handleSubmit_c now today st)) = map id_m (mappings st) \<and>
      (\<forall>i < length (mappings st).
         mappings (handleSubmit_c now today st) ! i =
           (if id_m (mappings st ! i) = id_m e
            then spread_formData_c (formData_c st) (id_m e) ''active''
            else mappings st ! i))) \<and>
   (editingRepo st' = None \<longrightarrow>
      repositories_r (handleSubmit_r now today st')
        = (spread_formData_r (formData_r st') now)
            \<lparr>stars := Some 0, forks := Some 0, issues := Some 0, pullRequests := Some 0,
             coverage := Some 0, lastCommit := Some ''Just now''\<rparr> # repositories_r st' \<and>
      length (repositories_r (handleSubmit_r now today st')) = length (repositories_r st') + 1) \<and>
   (editingRepo st' = Some e' \<longrightarrow>
      length (repositories_r (handleSubmit_r now today st')) = length (repositories_r st') \<and>
      map id_r (repositories_r (handleSubmit_r now today st')) = map id_r (repositories_r st') \<and>
      (\<forall>i < length (repositories_r st').
         repositories_r (handleSubmit_r now today st') ! i =
           (if id_r (repositories_r st' ! i) = id_r e'
            then spread_formData_r (formData_r st') (id_r e')
            else repositories_r st' ! i)))"
proof -
  have "map id_m (map (\<lambda>mapping. if id_m mapping = k
            then spread_formData_c fd (id_m mapping) ''active'' else mapping) xs)
          = map id_m xs" for k fd and xs :: "mapping list"
    by (induction xs) simp_all
  moreover have "map id_r (map (\<lambda>repo. if id_r repo = k
            then spread_formData_r fd (id_r repo) else repo) xs)
          = map id_r xs" for k fd and xs :: "repo list"
    by (induction xs) simp_all
  ultimately show ?thesis
    by (simp add: mappings_handleSubmit_c repositories_handleSubmit_r)
qed

theorem handleSubmit_count_witness:
  "editingMapping (example_page_c None) = None \<and>
   length (mappings (handleSubmit_c 1706745600000 ''2024-02-01'' (example_page_c None)))
     = length (mappings (example_page_c None)) + 1 \<and>
   map id_m (mappings (handleSubmit_c 1706745600000 ''2024-02-01'' (example_page_c None)))
     = [1706745600000, 1, 2, 3, 4, 5] \<and>
   editingMapping (example_page_c (Some (mockMappings ! 1))) = Some (mockMappings ! 1) \<and>
   map id_m (mappings (handleSubmit_c 1706745600000 ''2024-02-01''
       (example_page_c (Some (mockMappings ! 1))))) = [1, 2, 3, 4, 5] \<and>
   map filePath (mappings (handleSubmit_c 1706745600000 ''2024-02-01''
       (example_page_c (Some (mockMappings ! 1)))))
     = [''src/components/Button.jsx'', ''src/App.jsx'', ''src/services/api.js'',
        ''src/hooks/useAuth.js'', ''src/components/Modal.jsx''] \<and>
   editingRepo (example_page_r None) = None \<and>
   map id_r (repositories_r (handleSubmit_r 1706745600000 ''2024-02-01'' (example_page_r None)))
     = [1706745600000, 1, 2, 3, 4, 5, 6] \<and>
   editingRepo (example_page_r (Some (mockRepositories ! 5))) = Some (mockRepositories ! 5) \<and>
   map id_r (repositories_r (handleSubmit_r 1706745600000 ''2024-02-01''
       (example_page_r (Some (mockRepositories ! 5))))) = [1, 2, 3, 4, 5, 6] \<and>
   map name (repositories_r (handleSubmit_r 1706745600000 ''2024-02-01''
       (example_page_r (Some (mockRepositories ! 5)))))
     = [''frontend-app'', ''backend-api'', ''mobile-app'', ''data-pipeline'',
        ''infrastructure'', ''cli-tool'']"
  using
    handleSubmit_count [of "example_page_c None" 1706745600000 "''2024-02-01''"
      "mockMappings ! 1" "example_page_r None" "mockRepositories ! 5"]
    handleSubmit_count [of "example_page_c (Some (mockMappings ! 1))" 1706745600000
      "''2024-02-01''" "mockMappings ! 1" "example_page_r (Some (mockRepositories ! 5))"
      "mockRepositories ! 5"]
  by (simp add: mappings_handleSubmit_c repositories_handleSubmit_r example_page_c_def
      example_page_r_def mockMappings_def mockRepositories_def spread_formData_c_def
      spread_formData_r_def)

section \<open>The analysis context: results\<close>

lemma API_BASE_URL_dispatch [simp]: "API_BASE_URL (dispatch a w) = API_BASE_URL w"
  by (simp add: API_BASE_URL_def dispatch_def)

text \<open>A request that throws: what \<open>apiCall\<close> returns and the world it leaves.\<close>

lemma apiCall_throws:
  assumes "try_fetch outcome = Inl e"
  shows "apiCall endpoint outcome w =
    (Inl e,
     w\<lparr>state := (state w)\<lparr>error := Some (errorMessage e), loading := False\<rparr>,
       effects := effects w @
         [Dispatched (SET_LOADING True), Dispatched CLEAR_ERROR,
          Fetched (API_BASE_URL w @ endpoint),
          Dispatched (SET_ERROR (errorMessage e)), Dispatched (SET_LOADING False)]\<rparr>)"
  using assms by (simp add: apiCall_def Let_def dispatch_def API_BASE_URL_def)

text \<open>A request that returns data.\<close>

lemma apiCall_returns:
  assumes "try_fetch outcome = Inr data"
  shows "apiCall endpoint outcome w =
    (Inr data,
     w\<lparr>state := (state w)\<lparr>error := None, loading := False\<rparr>,
       effects := effects w @
         [Dispatched (SET_LOADING True), Dispatched CLEAR_ERROR,
          Fetched (API_BASE_URL w @ endpoint), Dispatched (SET_LOADING False)]\<rparr>)"
  using assms by (simp add: apiCall_def Let_def dispatch_def API_BASE_URL_def)

lemma errorMessage_nonempty: "errorMessage e \<noteq> []"
  by (simp add: errorMessage_def)

lemma try_fetch_throws_iff:
  "(\<exists>e. try_fetch outcome = Inl e) \<longleftrightarrow>
     (case outcome of Rejects _ \<Rightarrow> True | Resolves r \<Rightarrow> \<not> ok r \<or> isl (json r))"
  by (cases outcome) (auto simp: try_fetch_def isl_def)

text \<open>
  C5: when the request fails (the fetch rejects, the response is not ok, or its body
  fails to parse), that is, when the \<open>try\<close> block throws an error \<open>e\<close>, \<open>apiCall\<close>
  rethrows \<open>e\<close> and leaves \<open>error\<close> equal to the message of \<open>e\<close>, or to
  \<open>An error occurred\<close> when that message is empty; the Navbar banner shows that string;
  after \<open>clearError\<close>, \<open>error\<close> is \<open>null\<close> and the banner is gone.
\<close>

theorem failed_request_banner:
  "((\<exists>e. try_fetch outcome = Inl e) \<longleftrightarrow>
      (case outcome of Rejects _ \<Rightarrow> True | Resolves r \<Rightarrow> \<not> ok r \<or> isl (json r))) \<and>
   try_fetch (Rejects e1 :: 'b fetch_outcome) = Inl e1 \<and>
   (\<not> ok r2 \<longrightarrow>
      try_fetch (Resolves r2)
        = Inl (Error (''HTTP error! status: '' @ String_of_nat (status_of r2)))) \<and>
   (ok r3 \<and> json r3 = Inl e3 \<longrightarrow> try_fetch (Resolves r3) = Inl e3) \<and>
   (try_fetch outcome = Inl e \<longrightarrow>
      fst (apiCall endpoint outcome w) = Inl e \<and>
      error (state (snd (apiCall endpoint outcome w)))
        = Some (if message e = [] then ''An error occurred'' else message e) \<and>
      Navbar_errorBanner (snd (apiCall endpoint outcome w))
        = Some (if message e = [] then ''An error occurred'' else message e) \<and>
      error (state (clearError (snd (apiCall endpoint outcome w)))) = None \<and>
      Navbar_errorBanner (clearError (snd (apiCall endpoint outcome w))) = None)"
proof -
  have "try_fetch (Rejects e1 :: 'b fetch_outcome) = Inl e1"
    by (simp add: try_fetch_def)
  moreover have "try_fetch (Resolves r2)
      = Inl (Error (''HTTP error! status: '' @ String_of_nat (status_of r2)))" if "\<not> ok r2"
    using that by (simp add: try_fetch_def)
  moreover have "try_fetch (Resolves r3) = Inl e3" if "ok r3" "json r3 = Inl e3"
    using that by (simp add: try_fetch_def)
  moreover have "fst (apiCall endpoint outcome w) = Inl e \<and>
      error (state (snd (apiCall endpoint outcome w)))
        = Some (if message e = [] then ''An error occurred'' else message e) \<and>
      Navbar_errorBanner (snd (apiCall endpoint outcome w))
        = Some (if message e = [] then ''An error occurred'' else message e) \<and>
      error (state (clearError (snd (apiCall endpoint outcome w)))) = None \<and>
      Navbar_errorBanner (clearError (snd (apiCall endpoint outcome w))) = None"
    if "try_fetch outcome = Inl e"
    by (simp add: apiCall_throws [OF that] Navbar_errorBanner_def clearError_def
        dispatch_def errorMessage_def)
  ultimately show ?thesis
    using try_fetch_throws_iff [of outcome] by blast
qed

theorem failed_request_banner_witness:
  "\<not> ok (Response 503 (Inr ([] :: int list))) \<and>
   try_fetch (Resolves (Response 503 (Inr ([] :: int list))))
     = Inl (Error ''HTTP error! status: 503'') \<and>
   error (state (snd (apiCall ''/api/v1/analyses''
       (Resolves (Response 503 (Inr ([] :: int list)))) initialWorld)))
     = Some ''HTTP error! status: 503'' \<and>
   Navbar_errorBanner (snd (apiCall ''/api/v1/analyses''
       (Resolves (Response 503 (Inr ([] :: int list)))) initialWorld))
     = Some ''HTTP error! status: 503'' \<and>
   Navbar_errorBanner (clearError (snd (apiCall ''/api/v1/analyses''
       (Resolves (Response 503 (Inr ([] :: int list)))) initialWorld))) = None \<and>
   try_fetch (Rejects (Error '''') :: int list fetch_outcome) = Inl (Error '''') \<and>
   error (state (snd (apiCall ''/api/v1/analyses''
       (Rejects (Error '''') :: int list fetch_outcome) initialWorld)))
     = Some ''An error occurred'' \<and>
   ok (Response 200 (Inl (Error ''Unexpected end of JSON input'') :: js_error + int list)) \<and>
   error (state (snd (apiCall ''/api/v1/analyses''
       (Resolves (Response 200 (Inl (Error ''Unexpected end of JSON input'')
          :: js_error + int list))) initialWorld)))
     = Some ''Unexpected end of JSON input''"
proof -
  let ?down = "Resolves (Response 503 (Inr ([] :: int list)))"
  let ?offline = "Rejects (Error '''') :: int list fetch_outcome"
  let ?html = "Response 200 (Inl (Error ''Unexpected end of JSON input'') :: js_error + int list)"
  have ok: "\<not> ok (Response 503 (Inr ([] :: int list)))" "ok ?html"
    by (simp_all add: ok_def)
  have t: "try_fetch ?down = Inl (Error ''HTTP error! status: 503'')"
    "try_fetch ?offline = Inl (Error '''')"
    "try_fetch (Resolves ?html) = Inl (Error ''Unexpected end of JSON input'')"
    by (simp_all add: try_fetch_def ok_def String_of_nat.simps)
  have "error (state (snd (apiCall ''/api/v1/analyses'' ?down initialWorld)))
          = Some (if message (Error ''HTTP error! status: 503'') = [] then ''An error occurred''
                  else message (Error ''HTTP error! status: 503'')) \<and>
        Navbar_errorBanner (snd (apiCall ''/api/v1/analyses'' ?down initialWorld))
          = Some (if message (Error ''HTTP error! status: 503'') = [] then ''An error occurred''
                  else message (Error ''HTTP error! status: 503'')) \<and>
        Navbar_errorBanner (clearError (snd (apiCall ''/api/v1/analyses'' ?down initialWorld)))
          = None"
    using t(1)
      failed_request_banner [of ?down "Error ''Failed to fetch''" ?html ?html
        "Error ''Unexpected end of JSON input''" "Error ''HTTP error! status: 503''"
        "''/api/v1/analyses''" initialWorld]
    by blast
  moreover
  have "error (state (snd (apiCall ''/api/v1/analyses'' ?offline initialWorld)))
          = Some (if message (Error []) = [] then ''An error occurred'' else message (Error []))"
    using t(2)
      failed_request_banner [of ?offline "Error ''Failed to fetch''" ?html ?html
        "Error ''Unexpected end of JSON input''" "Error ''''"
        "''/api/v1/analyses''" initialWorld]
    by blast
  moreover
  have "error (state (snd (apiCall ''/api/v1/analyses'' (Resolves ?html) initialWorld)))
          = Some (if message (Error ''Unexpected end of JSON input'') = [] then ''An error occurred''
                  else message (Error ''Unexpected end of JSON input''))"
    using t(3)
      failed_request_banner [of "Resolves ?html" "Error ''Failed to fetch''" ?html ?html
        "Error ''Unexpected end of JSON input''"
        "Error ''Unexpected end of JSON input''" "''/api/v1/analyses''" initialWorld]
    by blast
  ultimately show ?thesis
    using ok t by simp
qed

subsection \<open>The stored message and the kind of failure\<close>

lemma digit_inj:
  assumes "a < 10" and "b < 10" and "''0123456789'' ! a = ''0123456789'' ! b"
  shows "a = b"
proof -
  have "distinct ''0123456789''"
    by simp
  moreover have "a < length ''0123456789''" and "b < length ''0123456789''"
    using assms(1,2) by simp_all
  ultimately show ?thesis
    using assms(3) by (simp only: nth_eq_iff_index_eq)
qed

lemma String_of_nat_small: "n < 10 \<Longrightarrow> String_of_nat n = [''0123456789'' ! n]"
  by (subst String_of_nat.simps) simp

lemma String_of_nat_large:
  "\<not> n < 10 \<Longrightarrow> String_of_nat n = String_of_nat (n div 10) @ [''0123456789'' ! (n mod 10)]"
  by (subst String_of_nat.simps) simp

lemma String_of_nat_nonempty: "String_of_nat n \<noteq> []"
  by (cases "n < 10") (simp_all add: String_of_nat_small String_of_nat_large)

lemma String_of_nat_length: "length (String_of_nat n) = 1 \<longleftrightarrow> n < 10"
  by (cases "n < 10")
    (simp_all add: String_of_nat_small String_of_nat_large String_of_nat_nonempty)

lemma String_of_nat_inj: "String_of_nat n = String_of_nat m \<Longrightarrow> n = m"
proof (induction n arbitrary: m rule: String_of_nat.induct)
  case (1 n)
  show ?case
  proof (cases "n < 10")
    case True
    then have "length (String_of_nat m) = 1"
      using "1.prems" String_of_nat_length [of n] by simp
    then have m: "m < 10"
      by (simp only: String_of_nat_length)
    with True "1.prems" have "''0123456789'' ! n = ''0123456789'' ! m"
      by (simp add: String_of_nat_small)
    with True m show ?thesis
      by (rule digit_inj)
  next
    case False
    then have "length (String_of_nat m) \<noteq> 1"
      using "1.prems" String_of_nat_length [of n] by simp
    then have m: "\<not> m < 10"
      by (simp only: String_of_nat_length not_False_eq_True)
    from False m "1.prems"
    have parts: "String_of_nat (n div 10) = String_of_nat (m div 10)"
      "''0123456789'' ! (n mod 10) = ''0123456789'' ! (m mod 10)"
      by (simp_all add: String_of_nat_large)
    have "n div 10 = m div 10"
      using False parts(1) by (rule "1.IH")
    moreover have "n mod 10 = m mod 10"
      using parts(2) by (intro digit_inj) simp_all
    ultimately show ?thesis
      by (metis div_mult_mod_eq)
  qed
qed

lemma apiCall_not_ok:
  assumes "\<not> ok x"
  shows "error (state (snd (apiCall endpoint (Resolves x) w)))
           = Some (''HTTP error! status: '' @ String_of_nat (status_of x))"
proof -
  have "try_fetch (Resolves x)
      = Inl (Error (''HTTP error! status: '' @ String_of_nat (status_of x)))"
    using assms by (simp add: try_fetch_def)
  then show ?thesis
    by (simp add: apiCall_throws errorMessage_def)
qed

text \<open>
  C6, as stated, at a concrete input: a 404 response, a 500 response and a rejected fetch
  leave three different messages in \<open>error\<close>.
\<close>

theorem one_generic_message_counterexample:
  "error (state (snd (apiCall ''/api/v1/health''
       (Resolves (Response 404 (Inr (0::int)))) initialWorld)))
     = Some ''HTTP error! status: 404'' \<and>
   error (state (snd (apiCall ''/api/v1/health''
       (Resolves (Response 500 (Inr (0::int)))) initialWorld)))
     = Some ''HTTP error! status: 500'' \<and>
   error (state (snd (apiCall ''/api/v1/health''
       (Rejects (Error ''Failed to fetch'') :: int fetch_outcome) initialWorld)))
     = Some ''Failed to fetch'' \<and>
   error (state (snd (apiCall ''/api/v1/health''
       (Resolves (Response 404 (Inr (0::int)))) initialWorld)))
     \<noteq> error (state (snd (apiCall ''/api/v1/health''
       (Resolves (Response 500 (Inr (0::int)))) initialWorld)))"
proof -
  have "try_fetch (Resolves (Response 404 (Inr (0::int))))
          = Inl (Error ''HTTP error! status: 404'')"
    "try_fetch (Resolves (Response 500 (Inr (0::int))))
          = Inl (Error ''HTTP error! status: 500'')"
    "try_fetch (Rejects (Error ''Failed to fetch'') :: int fetch_outcome)
          = Inl (Error ''Failed to fetch'')"
    by (simp_all add: try_fetch_def ok_def String_of_nat.simps)
  then show ?thesis
    by (simp add: apiCall_throws errorMessage_def)
qed

text \<open>
  C6, amended: \<open>apiCall\<close> keeps no error kind, only a message string. Two failed
  requests whose thrown errors carry the same message, whatever their kinds, leave the
  same state and the same record of effects. The stored string is the thrown error's own
  message: for a response that is not ok it is \<open>HTTP error! status: \<close> followed by the
  status code, so it differs between two different status codes; the one fixed text
  \<open>An error occurred\<close> is stored when the thrown message is empty.
\<close>

theorem failure_kind_not_kept:
  "(try_fetch o1 = Inl e1 \<and> try_fetch o2 = Inl e2 \<and> errorMessage e1 = errorMessage e2 \<longrightarrow>
      snd (apiCall endpoint o1 w) = snd (apiCall endpoint o2 w)) \<and>
   (try_fetch o1 = Inl e1 \<longrightarrow>
      error (state (snd (apiCall endpoint o1 w)))
        = Some (if message e1 = [] then ''An error occurred'' else message e1)) \<and>
   (\<not> ok r \<longrightarrow>
      error (state (snd (apiCall endpoint (Resolves r) w)))
        = Some (''HTTP error! status: '' @ String_of_nat (status_of r))) \<and>
   (\<not> ok r \<and> \<not> ok r' \<and> status_of r \<noteq> status_of r' \<longrightarrow>
      error (state (snd (apiCall endpoint (Resolves r) w)))
        \<noteq> error (state (snd (apiCall endpoint (Resolves r') w))))"
proof -
  have same: "snd (apiCall endpoint o1 w) = snd (apiCall endpoint o2 w)"
    if "try_fetch o1 = Inl e1" "try_fetch o2 = Inl e2" "errorMessage e1 = errorMessage e2"
    using that by (simp add: apiCall_throws)
  have stored: "error (state (snd (apiCall endpoint o1 w)))
        = Some (if message e1 = [] then ''An error occurred'' else message e1)"
    if "try_fetch o1 = Inl e1"
    using that by (simp add: apiCall_throws errorMessage_def)
  have differ: "error (state (snd (apiCall endpoint (Resolves r) w)))
        \<noteq> error (state (snd (apiCall endpoint (Resolves r') w)))"
    if "\<not> ok r" "\<not> ok r'" "status_of r \<noteq> status_of r'"
  proof -
    have "String_of_nat (status_of r) \<noteq> String_of_nat (status_of r')"
      using that(3) String_of_nat_inj by blast
    then show ?thesis
      using apiCall_not_ok [OF that(1), of endpoint w] apiCall_not_ok [OF that(2), of endpoint w]
      by simp
  qed
  show ?thesis
    using same stored apiCall_not_ok [of r endpoint w] differ by blast
qed

theorem failure_kind_not_kept_witness:
  "try_fetch (Rejects (Error ''HTTP error! status: 500'') :: int fetch_outcome)
     = Inl (Error ''HTTP error! status: 500'') \<and>
   try_fetch (Resolves (Response 500 (Inr (0::int))))
     = Inl (Error ''HTTP error! status: 500'') \<and>
   snd (apiCall ''/api/v1/health''
       (Rejects (Error ''HTTP error! status: 500'') :: int fetch_outcome) initialWorld)
     = snd (apiCall ''/api/v1/health'' (Resolves (Response 500 (Inr (0::int)))) initialWorld) \<and>
   \<not> ok (Response 500 (Inr (0::int))) \<and> \<not> ok (Response 404 (Inr (0::int))) \<and>
   error (state (snd (apiCall ''/api/v1/health''
       (Resolves (Response 500 (Inr (0::int)))) initialWorld)))
     = Some ''HTTP error! status: 500'' \<and>
   error (state (snd (apiCall ''/api/v1/health''
       (Resolves (Response 500 (Inr (0::int)))) initialWorld)))
     \<noteq> error (state (snd (apiCall ''/api/v1/health''
       (Resolves (Response 404 (Inr (0::int)))) initialWorld)))"
proof -
  let ?net = "Rejects (Error ''HTTP error! status: 500'') :: int fetch_outcome"
  let ?r500 = "Response 500 (Inr (0::int))"
  let ?r404 = "Response 404 (Inr (0::int))"
  have t: "try_fetch ?net = Inl (Error ''HTTP error! status: 500'')"
    "try_fetch (Resolves ?r500) = Inl (Error ''HTTP error! status: 500'')"
    by (simp_all add: try_fetch_def ok_def String_of_nat.simps)
  have ok: "\<not> ok ?r500" "\<not> ok ?r404"
    by (simp_all add: ok_def)
  have s: "String_of_nat (status_of ?r500) = ''500''"
    by (simp add: String_of_nat.simps)
  have ne: "status_of ?r500 \<noteq> status_of ?r404"
    by simp
  note inst = failure_kind_not_kept [of ?net "Error ''HTTP error! status: 500''"
      "Resolves ?r500" "Error ''HTTP error! status: 500''" "''/api/v1/health''" initialWorld
      ?r500 ?r404]
  have "snd (apiCall ''/api/v1/health'' ?net initialWorld)
          = snd (apiCall ''/api/v1/health'' (Resolves ?r500) initialWorld)"
    using t inst by blast
  moreover
  have "error (state (snd (apiCall ''/api/v1/health'' (Resolves ?r500) initialWorld)))
          = Some ''HTTP error! status: 500''"
    using ok(1) s inst by (simp only: append.simps) blast
  moreover
  have "error (state (snd (apiCall ''/api/v1/health'' (Resolves ?r500) initialWorld)))
          \<noteq> error (state (snd (apiCall ''/api/v1/health'' (Resolves ?r404) initialWorld)))"
    using ok ne inst by blast
  ultimately show ?thesis
    using t ok by simp
qed

subsection \<open>Requests and the data in shared state\<close>

lemma data_fields_flags [simp]:
  "data_fields (s\<lparr>error := er, loading := l\<rparr>) = data_fields s"
  by (simp add: data_fields_def)

lemma getAnalyses_throws:
  assumes "try_fetch outcome = Inl e"
  shows "fst (getAnalyses outcome w) = Inl e"
    and "state (snd (getAnalyses outcome w))
           = (state w)\<lparr>error := Some (errorMessage e), loading := False\<rparr>"
  by (simp_all add: getAnalyses_def apiCall_throws [OF assms] console_error_def)

lemma getRepositories_throws:
  assumes "try_fetch outcome = Inl e"
  shows "fst (getRepositories outcome w) = Inl e"
    and "state (snd (getRepositories outcome w))
           = (state w)\<lparr>error := Some (errorMessage e), loading := False\<rparr>"
  by (simp_all add: getRepositories_def apiCall_throws [OF assms] console_error_def)

lemma getCoverageMappings_throws:
  assumes "try_fetch outcome = Inl e"
  shows "fst (getCoverageMappings outcome w) = Inl e"
    and "state (snd (getCoverageMappings outcome w))
           = (state w)\<lparr>error := Some (errorMessage e), loading := False\<rparr>"
  by (simp_all add: getCoverageMappings_def apiCall_throws [OF assms] console_error_def)

lemma getMetrics_throws:
  assumes "try_fetch outcome = Inl e"
  shows "fst (getMetrics outcome w) = Inl e"
    and "state (snd (getMetrics outcome w))
           = (state w)\<lparr>error := Some (errorMessage e), loading := False\<rparr>"
  by (simp_all add: getMetrics_def apiCall_throws [OF assms] console_error_def)

text \<open>
  C7: when the underlying request of \<open>getAnalyses\<close>, \<open>getRepositories\<close>,
  \<open>getCoverageMappings\<close> or \<open>getMetrics\<close> fails with an error \<open>e\<close>, the call rethrows
  \<open>e\<close> and the state afterwards is the state before with only \<open>error\<close> and \<open>loading\<close>
  written: \<open>analyses\<close>, \<open>currentAnalysis\<close>, \<open>repositories\<close>, \<open>coverageMappings\<close> and
  \<open>stats\<close> are what they were.
\<close>

theorem failed_request_keeps_data:
  "(try_fetch outcome = Inl e \<longrightarrow>
      fst (getAnalyses outcome w) = Inl e \<and>
      state (snd (getAnalyses outcome w))
        = (state w)\<lparr>error := Some (errorMessage e), loading := False\<rparr> \<and>
      data_fields (state (snd (getAnalyses outcome w))) = data_fields (state w) \<and>
      fst (getRepositories outcome w) = Inl e \<and>
      state (snd (getRepositories outcome w))
        = (state w)\<lparr>error := Some (errorMessage e), loading := False\<rparr> \<and>
      data_fields (state (snd (getRepositories outcome w))) = data_fields (state w) \<and>
      fst (getCoverageMappings outcome w) = Inl e \<and>
      state (snd (getCoverageMappings outcome w))
        = (state w)\<lparr>error := Some (errorMessage e), loading := False\<rparr> \<and>
      data_fields (state (snd (getCoverageMappings outcome w))) = data_fields (state w)) \<and>
   (try_fetch outcome' = Inl e' \<longrightarrow>
      fst (getMetrics outcome' w) = Inl e' \<and>
      state (snd (getMetrics outcome' w))
        = (state w)\<lparr>error := Some (errorMessage e'), loading := False\<rparr> \<and>
      data_fields (state (snd (getMetrics outcome' w))) = data_fields (state w)) \<and>
   data_fields (state w)
     = (analyses (state w), currentAnalysis (state w), repositories (state w),
        coverageMappings (state w), stats (state w))"
  by (simp add: getAnalyses_throws getRepositories_throws getCoverageMappings_throws
      getMetrics_throws)
    (simp add: data_fields_def)

theorem failed_request_keeps_data_witness:
  "try_fetch (Resolves (Response 500 (Inr [1, 2 :: int]))) = Inl (Error ''HTTP error! status: 500'') \<and>
   analyses (state (snd (getAnalyses (Resolves (Response 500 (Inr [1, 2]))) initialWorld))) = [] \<and>
   repositories (state (snd (getRepositories (Resolves (Response 500 (Inr [1, 2]))) initialWorld)))
     = [] \<and>
   coverageMappings
     (state (snd (getCoverageMappings (Resolves (Response 500 (Inr [1, 2]))) initialWorld))) = [] \<and>
   error (state (snd (getAnalyses (Resolves (Response 500 (Inr [1, 2]))) initialWorld)))
     = Some ''HTTP error! status: 500'' \<and>
   try_fetch (Rejects (Error ''Failed to fetch'') :: (string \<rightharpoonup> int) fetch_outcome)
     = Inl (Error ''Failed to fetch'') \<and>
   stats (state (snd (getMetrics (Rejects (Error ''Failed to fetch'')) initialWorld)))
       ''totalAnalyses'' = Some 0 \<and>
   data_fields (state (snd (getMetrics (Rejects (Error ''Failed to fetch'')) initialWorld)))
     = data_fields (state initialWorld)"
proof -
  let ?down = "Resolves (Response 500 (Inr [1, 2 :: int]))"
  let ?offline = "Rejects (Error ''Failed to fetch'') :: (string \<rightharpoonup> int) fetch_outcome"
  have t: "try_fetch ?down = Inl (Error ''HTTP error! status: 500'')"
    "try_fetch ?offline = Inl (Error ''Failed to fetch'')"
    by (simp_all add: try_fetch_def ok_def String_of_nat.simps)
  note inst = failed_request_keeps_data [of ?down "Error ''HTTP error! status: 500''"
      initialWorld ?offline "Error ''Failed to fetch''"]
  have a: "state (snd (getAnalyses ?down initialWorld))
             = (state initialWorld)\<lparr>error := Some (errorMessage (Error ''HTTP error! status: 500'')),
                                   loading := False\<rparr>"
    and r: "state (snd (getRepositories ?down initialWorld))
             = (state initialWorld)\<lparr>error := Some (errorMessage (Error ''HTTP error! status: 500'')),
                                   loading := False\<rparr>"
    and c: "state (snd (getCoverageMappings ?down initialWorld))
             = (state initialWorld)\<lparr>error := Some (errorMessage (Error ''HTTP error! status: 500'')),
                                   loading := False\<rparr>"
    and m: "state (snd (getMetrics ?offline initialWorld))
             = (state initialWorld)\<lparr>error := Some (errorMessage (Error ''Failed to fetch'')),
                                   loading := False\<rparr>"
    using t inst by blast+
  show ?thesis
    unfolding a r c m using t
    by (simp add: initialWorld_def initialState_def errorMessage_def data_fields_def)
qed

subsection \<open>The steps of a request, in order\<close>

lemma try_fetch_ok:
  assumes "ok x" and "json x = Inr y"
  shows "try_fetch (Resolves x) = Inr y"
  using assms by (simp add: try_fetch_def)

lemma API_BASE_URL_update [simp]:
  "API_BASE_URL (w\<lparr>state := s, effects := es\<rparr>) = API_BASE_URL w"
  by (simp add: API_BASE_URL_def)

text \<open>A request whose response is ok and whose body parses.\<close>

lemma apiCall_ok:
  assumes "ok x" and "json x = Inr y"
  shows "apiCall endpoint (Resolves x) w =
    (Inr y,
     w\<lparr>state := (state w)\<lparr>error := None, loading := False\<rparr>,
       effects := effects w @
         [Dispatched (SET_LOADING True), Dispatched CLEAR_ERROR,
          Fetched (API_BASE_URL w @ endpoint), Dispatched (SET_LOADING False)]\<rparr>)"
  using try_fetch_ok [OF assms] by (rule apiCall_returns)

lemma getRepositories_ok:
  assumes "ok x" and "json x = Inr y"
  shows "getRepositories (Resolves x) w =
    (Inr y,
     w\<lparr>state := (state w)\<lparr>repositories := y, error := None, loading := False\<rparr>,
       effects := effects w @
         [Dispatched (SET_LOADING True), Dispatched CLEAR_ERROR,
          Fetched (API_BASE_URL w @ ''/api/v1/repositories''), Dispatched (SET_LOADING False),
          Dispatched (SET_REPOSITORIES y)]\<rparr>)"
  by (simp add: getRepositories_def apiCall_ok [OF assms] dispatch_def)

lemma getCoverageMappings_ok:
  assumes "ok x" and "json x = Inr y"
  shows "getCoverageMappings (Resolves x) w =
    (Inr y,
     w\<lparr>state := (state w)\<lparr>coverageMappings := y, error := None, loading := False\<rparr>,
       effects := effects w @
         [Dispatched (SET_LOADING True), Dispatched CLEAR_ERROR,
          Fetched (API_BASE_URL w @ ''/api/v1/coverage-mappings''),
          Dispatched (SET_LOADING False), Dispatched (SET_COVERAGE_MAPPINGS y)]\<rparr>)"
  by (simp add: getCoverageMappings_def apiCall_ok [OF assms] dispatch_def)

lemma getMetrics_ok:
  assumes "ok x" and "json x = Inr y"
  shows "getMetrics (Resolves x) w =
    (Inr y,
     w\<lparr>state := (state w)\<lparr>stats := stats (state w) ++ y, error := None, loading := False\<rparr>,
       effects := effects w @
         [Dispatched (SET_LOADING True), Dispatched CLEAR_ERROR,
          Fetched (API_BASE_URL w @ ''/api/v1/metrics''), Dispatched (SET_LOADING False),
          Dispatched (UPDATE_STATS y)]\<rparr>)"
  by (simp add: getMetrics_def apiCall_ok [OF assms] dispatch_def)

lemma analyzeImpact_ok:
  assumes "ok x" and "json x = Inr y"
  shows "analyzeImpact (Inr body) (Resolves x) w =
    (Inr y,
     w\<lparr>state := (state w)\<lparr>analyses := y # analyses (state w), currentAnalysis := Some y,
                          error := None, loading := False\<rparr>,
       effects := effects w @
         [Dispatched (SET_LOADING True), Dispatched CLEAR_ERROR,
          Fetched (API_BASE_URL w @ ''/api/v1/analyze''), Dispatched (SET_LOADING False),
          Dispatched (ADD_ANALYSIS y)]\<rparr>)"
  by (simp add: analyzeImpact_def apiCall_ok [OF assms] dispatch_def)

lemma getHealthStatus_ok:
  assumes "ok x" and "json x = Inr y"
  shows "getHealthStatus (Resolves x) w =
    (Inr y,
     w\<lparr>state := (state w)\<lparr>error := None, loading := False\<rparr>,
       effects := effects w @
         [Dispatched (SET_LOADING True), Dispatched CLEAR_ERROR,
          Fetched (API_BASE_URL w @ ''/api/v1/health''), Dispatched (SET_LOADING False)]\<rparr>)"
  by (simp add: getHealthStatus_def apiCall_ok [OF assms])

lemma createCoverageMapping_ok:
  assumes "ok x" and "json x = Inr y" and "ok x'" and "json x' = Inr ys"
  shows "createCoverageMapping (Inr body) (Resolves x) (Resolves x') w =
    (Inr y,
     w\<lparr>state := (state w)\<lparr>coverageMappings := ys, error := None, loading := False\<rparr>,
       effects := effects w @
         [Dispatched (SET_LOADING True), Dispatched CLEAR_ERROR,
          Fetched (API_BASE_URL w @ ''/api/v1/coverage-mappings''),
          Dispatched (SET_LOADING False),
          Dispatched (SET_LOADING True), Dispatched CLEAR_ERROR,
          Fetched (API_BASE_URL w @ ''/api/v1/coverage-mappings''),
          Dispatched (SET_LOADING False), Dispatched (SET_COVERAGE_MAPPINGS ys)]\<rparr>)"
  by (simp add: createCoverageMapping_def apiCall_ok [OF assms(1,2)]
      getCoverageMappings_ok [OF assms(3,4)])

text \<open>
  C8, as stated, at a concrete input: \<open>getHealthStatus\<close> on a 200 response whose body
  parses returns the body, and no action carrying the body is dispatched: the only
  dispatches are those of \<open>apiCall\<close>, and the state afterwards is the state before.
  \<open>createCoverageMapping\<close> returns the body of its \<open>POST\<close> and stores the body of the
  refresh, not its own.
\<close>

theorem body_not_dispatched_counterexample:
  "ok (Response 200 (Inr (1::int))) \<and>
   json (Response 200 (Inr (1::int))) = Inr 1 \<and>
   fst (getHealthStatus (Resolves (Response 200 (Inr (1::int)))) initialWorld) = Inr 1 \<and>
   effects (snd (getHealthStatus (Resolves (Response 200 (Inr (1::int)))) initialWorld))
     = [Dispatched (SET_LOADING True), Dispatched CLEAR_ERROR,
        Fetched ''http://localhost:8000/api/v1/health'', Dispatched (SET_LOADING False)] \<and>
   state (snd (getHealthStatus (Resolves (Response 200 (Inr (1::int)))) initialWorld))
     = state initialWorld \<and>
   fst (createCoverageMapping (Inr (Some ''{}'')) (Resolves (Response 201 (Inr (1::int))))
       (Resolves (Response 200 (Inr [2, 3]))) initialWorld) = Inr 1 \<and>
   coverageMappings (state (snd (createCoverageMapping (Inr (Some ''{}''))
       (Resolves (Response 201 (Inr (1::int)))) (Resolves (Response 200 (Inr [2, 3])))
       initialWorld))) = [2, 3]"
proof -
  have h: "ok (Response 200 (Inr (1::int)))" "json (Response 200 (Inr (1::int))) = Inr 1"
    "ok (Response 201 (Inr (1::int)))" "json (Response 201 (Inr (1::int))) = Inr 1"
    "ok (Response 200 (Inr [2, 3 :: int]))" "json (Response 200 (Inr [2, 3 :: int])) = Inr [2, 3]"
    by (simp_all add: ok_def)
  show ?thesis
    using h(1,2)
    by (simp add: getHealthStatus_ok [OF h(1,2)] createCoverageMapping_ok [OF h(3,4,5,6)])
      (simp add: initialWorld_def initialState_def API_BASE_URL_def)
qed

text \<open>
  C8, amended: every \<open>apiCall\<close> first dispatches \<open>SET_LOADING true\<close>, then \<open>CLEAR_ERROR\<close>,
  then issues the request (so the request is issued with \<open>loading\<close> true and \<open>error\<close>
  null). On a response that is ok and whose body parses to \<open>data\<close>, \<open>apiCall\<close> returns
  \<open>data\<close> with \<open>loading\<close> false and \<open>error\<close> null. The wrappers \<open>getAnalyses\<close>,
  \<open>getRepositories\<close>, \<open>getCoverageMappings\<close>, \<open>getMetrics\<close> and \<open>analyzeImpact\<close> then
  dispatch the body into the state (\<open>getAnalyses\<close> dispatches \<open>SET_ANALYSES data\<close>, so
  that \<open>analyses\<close> is \<open>data\<close>; the others \<open>SET_REPOSITORIES\<close>, \<open>SET_COVERAGE_MAPPINGS\<close>,
  \<open>UPDATE_STATS\<close> and \<open>ADD_ANALYSIS\<close>), with \<open>loading\<close> false, \<open>error\<close> null and the other
  fields what they were. \<open>getHealthStatus\<close> returns the body and dispatches nothing of
  its own; \<open>createCoverageMapping\<close> returns the body of its \<open>POST\<close> and stores, through
  \<open>getCoverageMappings\<close>, the body of the refresh. After each of these calls \<open>loading\<close>
  is false and \<open>error\<close> is null.
\<close>

theorem request_steps:
  "prefix (effects w @
       [Dispatched (SET_LOADING True), Dispatched CLEAR_ERROR,
        Fetched (API_BASE_URL w @ endpoint)])
     (effects (snd (apiCall endpoint outcome w))) \<and>
   loading (analysisReducer (analysisReducer (state w) (SET_LOADING True)) CLEAR_ERROR) \<and>
   error (analysisReducer (analysisReducer (state w) (SET_LOADING True)) CLEAR_ERROR) = None \<and>
   (ok response \<and> json response = Inr data \<longrightarrow>
      fst (apiCall endpoint (Resolves response) w) = Inr data \<and>
      effects (snd (apiCall endpoint (Resolves response) w))
        = effects w @
            [Dispatched (SET_LOADING True), Dispatched CLEAR_ERROR,
             Fetched (API_BASE_URL w @ endpoint), Dispatched (SET_LOADING False)] \<and>
      state (snd (apiCall endpoint (Resolves response) w))
        = (state w)\<lparr>error := None, loading := False\<rparr>) \<and>
   (ok response' \<and> json response' = Inr result \<longrightarrow>
      fst (getAnalyses (Resolves response') w) = Inr result \<and>
      effects (snd (getAnalyses (Resolves response') w))
        = effects w @
            [Dispatched (SET_LOADING True), Dispatched CLEAR_ERROR,
             Fetched (API_BASE_URL w @ ''/api/v1/analyses''), Dispatched (SET_LOADING False),
             Dispatched (SET_ANALYSES result)] \<and>
      state (snd (getAnalyses (Resolves response') w))
        = (state w)\<lparr>analyses := result, error := None, loading := False\<rparr> \<and>
      analyses (state (snd (getAnalyses (Resolves response') w))) = result \<and>
      \<not> loading (state (snd (getAnalyses (Resolves response') w))) \<and>
      error (state (snd (getAnalyses (Resolves response') w))) = None) \<and>
   (ok response' \<and> json response' = Inr result \<longrightarrow>
      fst (getRepositories (Resolves response') w) = Inr result \<and>
      effects (snd (getRepositories (Resolves response') w))
        = effects w @
            [Dispatched (SET_LOADING True), Dispatched CLEAR_ERROR,
             Fetched (API_BASE_URL w @ ''/api/v1/repositories''),
             Dispatched (SET_LOADING False), Dispatched (SET_REPOSITORIES result)] \<and>
      state (snd (getRepositories (Resolves response') w))
        = (state w)\<lparr>repositories := result, error := None, loading := False\<rparr> \<and>
      fst (getCoverageMappings (Resolves response') w) = Inr result \<and>
      effects (snd (getCoverageMappings (Resolves response') w))
        = effects w @
            [Dispatched (SET_LOADING True), Dispatched CLEAR_ERROR,
             Fetched (API_BASE_URL w @ ''/api/v1/coverage-mappings''),
             Dispatched (SET_LOADING False), Dispatched (SET_COVERAGE_MAPPINGS result)] \<and>
      state (snd (getCoverageMappings (Resolves response') w))
        = (state w)\<lparr>coverageMappings := result, error := None, loading := False\<rparr>) \<and>
   (ok metrics_response \<and> json metrics_response = Inr metrics \<longrightarrow>
      fst (getMetrics (Resolves metrics_response) w) = Inr metrics \<and>
      effects (snd (getMetrics (Resolves metrics_response) w))
        = effects w @
            [Dispatched (SET_LOADING True), Dispatched CLEAR_ERROR,
             Fetched (API_BASE_URL w @ ''/api/v1/metrics''), Dispatched (SET_LOADING False),
             Dispatched (UPDATE_STATS metrics)] \<and>
      state (snd (getMetrics (Resolves metrics_response) w))
        = (state w)\<lparr>stats := stats (state w) ++ metrics, error := None, loading := False\<rparr>) \<and>
   (ok analysis_response \<and> json analysis_response = Inr analysis \<longrightarrow>
      fst (analyzeImpact (Inr body) (Resolves analysis_response) w) = Inr analysis \<and>
      effects (snd (analyzeImpact (Inr body) (Resolves analysis_response) w))
        = effects w @
            [Dispatched (SET_LOADING True), Dispatched CLEAR_ERROR,
             Fetched (API_BASE_URL w @ ''/api/v1/analyze''), Dispatched (SET_LOADING False),
             Dispatched (ADD_ANALYSIS analysis)] \<and>
      state (snd (analyzeImpact (Inr body) (Resolves analysis_response) w))
        = (state w)\<lparr>analyses := analysis # analyses (state w),
                      currentAnalysis := Some analysis, error := None, loading := False\<rparr>) \<and>
   (ok health_response \<and> json health_response = Inr health \<longrightarrow>
      fst (getHealthStatus (Resolves health_response) w) = Inr health \<and>
      effects (snd (getHealthStatus (Resolves health_response) w))
        = effects w @
            [Dispatched (SET_LOADING True), Dispatched CLEAR_ERROR,
             Fetched (API_BASE_URL w @ ''/api/v1/health''), Dispatched (SET_LOADING False)] \<and>
      state (snd (getHealthStatus (Resolves health_response) w))
        = (state w)\<lparr>error := None, loading := False\<rparr>) \<and>
   (ok created_response \<and> json created_response = Inr created \<and>
    ok response' \<and> json response' = Inr result \<longrightarrow>
      fst (createCoverageMapping (Inr body) (Resolves created_response) (Resolves response') w)
        = Inr created \<and>
      effects (snd (createCoverageMapping (Inr body) (Resolves created_response)
          (Resolves response') w))
        = effects w @
            [Dispatched (SET_LOADING True), Dispatched CLEAR_ERROR,
             Fetched (API_BASE_URL w @ ''/api/v1/coverage-mappings''),
             Dispatched (SET_LOADING False),
             Dispatched (SET_LOADING True), Dispatched CLEAR_ERROR,
             Fetched (API_BASE_URL w @ ''/api/v1/coverage-mappings''),
             Dispatched (SET_LOADING False), Dispatched (SET_COVERAGE_MAPPINGS result)] \<and>
      state (snd (createCoverageMapping (Inr body) (Resolves created_response)
          (Resolves response') w))
        = (state w)\<lparr>coverageMappings := result, error := None, loading := False\<rparr>)"
proof -
  have "prefix (effects w @
       [Dispatched (SET_LOADING True), Dispatched CLEAR_ERROR,
        Fetched (API_BASE_URL w @ endpoint)])
     (effects (snd (apiCall endpoint outcome w)))"
    by (cases "try_fetch outcome") (simp_all add: apiCall_throws apiCall_returns)
  moreover have "fst (apiCall endpoint (Resolves response) w) = Inr data \<and>
      effects (snd (apiCall endpoint (Resolves response) w))
        = effects w @
            [Dispatched (SET_LOADING True), Dispatched CLEAR_ERROR,
             Fetched (API_BASE_URL w @ endpoint), Dispatched (SET_LOADING False)] \<and>
      state (snd (apiCall endpoint (Resolves response) w))
        = (state w)\<lparr>error := None, loading := False\<rparr>"
    if "ok response" "json response = Inr data"
    by (simp add: apiCall_ok [OF that])
  moreover have "fst (getAnalyses (Resolves response') w) = Inr result \<and>
      effects (snd (getAnalyses (Resolves response') w))
        = effects w @
            [Dispatched (SET_LOADING True), Dispatched CLEAR_ERROR,
             Fetched (API_BASE_URL w @ ''/api/v1/analyses''), Dispatched (SET_LOADING False),
             Dispatched (SET_ANALYSES result)] \<and>
      state (snd (getAnalyses (Resolves response') w))
        = (state w)\<lparr>analyses := result, error := None, loading := False\<rparr> \<and>
      analyses (state (snd (getAnalyses (Resolves response') w))) = result \<and>
      \<not> loading (state (snd (getAnalyses (Resolves response') w))) \<and>
      error (state (snd (getAnalyses (Resolves response') w))) = None"
    if "ok response'" "json response' = Inr result"
    by (simp add: getAnalyses_def apiCall_ok [OF that] dispatch_def)
  moreover have "fst (getRepositories (Resolves response') w) = Inr result \<and>
      effects (snd (getRepositories (Resolves response') w))
        = effects w @
            [Dispatched (SET_LOADING True), Dispatched CLEAR_ERROR,
             Fetched (API_BASE_URL w @ ''/api/v1/repositories''),
             Dispatched (SET_LOADING False), Dispatched (SET_REPOSITORIES result)] \<and>
      state (snd (getRepositories (Resolves response') w))
        = (state w)\<lparr>repositories := result, error := None, loading := False\<rparr> \<and>
      fst (getCoverageMappings (Resolves response') w) = Inr result \<and>
      effects (snd (getCoverageMappings (Resolves response') w))
        = effects w @
            [Dispatched (SET_LOADING True), Dispatched CLEAR_ERROR,
             Fetched (API_BASE_URL w @ ''/api/v1/coverage-mappings''),
             Dispatched (SET_LOADING False), Dispatched (SET_COVERAGE_MAPPINGS result)] \<and>
      state (snd (getCoverageMappings (Resolves response') w))
        = (state w)\<lparr>coverageMappings := result, error := None, loading := False\<rparr>"
    if "ok response'" "json response' = Inr result"
    by (simp add: getRepositories_ok [OF that] getCoverageMappings_ok [OF that])
  moreover have "fst (getMetrics (Resolves metrics_response) w) = Inr metrics \<and>
      effects (snd (getMetrics (Resolves metrics_response) w))
        = effects w @
            [Dispatched (SET_LOADING True), Dispatched CLEAR_ERROR,
             Fetched (API_BASE_URL w @ ''/api/v1/metrics''), Dispatched (SET_LOADING False),
             Dispatched (UPDATE_STATS metrics)] \<and>
      state (snd (getMetrics (Resolves metrics_response) w))
        = (state w)\<lparr>stats := stats (state w) ++ metrics, error := None, loading := False\<rparr>"
    if "ok metrics_response" "json metrics_response = Inr metrics"
    by (simp add: getMetrics_ok [OF that])
  moreover have "fst (analyzeImpact (Inr body) (Resolves analysis_response) w) = Inr analysis \<and>
      effects (snd (analyzeImpact (Inr body) (Resolves analysis_response) w))
        = effects w @
            [Dispatched (SET_LOADING True), Dispatched CLEAR_ERROR,
             Fetched (API_BASE_URL w @ ''/api/v1/analyze''), Dispatched (SET_LOADING False),
             Dispatched (ADD_ANALYSIS analysis)] \<and>
      state (snd (analyzeImpact (Inr body) (Resolves analysis_response) w))
        = (state w)\<lparr>analyses := analysis # analyses (state w),
                      currentAnalysis := Some analysis, error := None, loading := False\<rparr>"
    if "ok analysis_response" "json analysis_response = Inr analysis"
    by (simp add: analyzeImpact_ok [OF that])
  moreover have "fst (getHealthStatus (Resolves health_response) w) = Inr health \<and>
      effects (snd (getHealthStatus (Resolves health_response) w))
        = effects w @
            [Dispatched (SET_LOADING True), Dispatched CLEAR_ERROR,
             Fetched (API_BASE_URL w @ ''/api/v1/health''), Dispatched (SET_LOADING False)] \<and>
      state (snd (getHealthStatus (Resolves health_response) w))
        = (state w)\<lparr>error := None, loading := False\<rparr>"
    if "ok health_response" "json health_response = Inr health"
    by (simp add: getHealthStatus_ok [OF that])
  moreover have
     "fst (createCoverageMapping (Inr body) (Resolves created_response) (Resolves response') w)
        = Inr created \<and>
      effects (snd (createCoverageMapping (Inr body) (Resolves created_response)
          (Resolves response') w))
        = effects w @
            [Dispatched (SET_LOADING True), Dispatched CLEAR_ERROR,
             Fetched (API_BASE_URL w @ ''/api/v1/coverage-mappings''),
             Dispatched (SET_LOADING False),
             Dispatched (SET_LOADING True), Dispatched CLEAR_ERROR,
             Fetched (API_BASE_URL w @ ''/api/v1/coverage-mappings''),
             Dispatched (SET_LOADING False), Dispatched (SET_COVERAGE_MAPPINGS result)] \<and>
      state (snd (createCoverageMapping (Inr body) (Resolves created_response)
          (Resolves response') w))
        = (state w)\<lparr>coverageMappings := result, error := None, loading := False\<rparr>"
    if "ok created_response" "json created_response = Inr created"
      "ok response'" "json response' = Inr result"
    by (simp add: createCoverageMapping_ok [OF that])
  ultimately show ?thesis
    by simp
qed

theorem request_steps_witness:
  "ok (Response 200 (Inr [10, 20 :: int])) \<and>
   json (Response 200 (Inr [10, 20 :: int])) = Inr [10, 20] \<and>
   fst (getAnalyses (Resolves (Response 200 (Inr [10, 20]))) initialWorld) = Inr [10, 20] \<and>
   effects (snd (getAnalyses (Resolves (Response 200 (Inr [10, 20]))) initialWorld))
     = [Dispatched (SET_LOADING True), Dispatched CLEAR_ERROR,
        Fetched ''http://localhost:8000/api/v1/analyses'', Dispatched (SET_LOADING False),
        Dispatched (SET_ANALYSES [10, 20])] \<and>
   analyses (state (snd (getAnalyses (Resolves (Response 200 (Inr [10, 20]))) initialWorld)))
     = [10, 20] \<and>
   \<not> loading (state (snd (getAnalyses (Resolves (Response 200 (Inr [10, 20]))) initialWorld))) \<and>
   error (state (snd (getAnalyses (Resolves (Response 200 (Inr [10, 20]))) initialWorld))) = None \<and>
   repositories (state (snd (getRepositories (Resolves (Response 200 (Inr [10, 20])))
       initialWorld))) = [10, 20] \<and>
   coverageMappings (state (snd (getCoverageMappings (Resolves (Response 200 (Inr [10, 20])))
       initialWorld))) = [10, 20] \<and>
   ok (Response 200 (Inr [''totalAnalyses'' \<mapsto> 3 :: int])) \<and>
   stats (state (snd (getMetrics (Resolves (Response 200 (Inr [''totalAnalyses'' \<mapsto> 3])))
       initialWorld))) ''totalAnalyses'' = Some 3 \<and>
   stats (state (snd (getMetrics (Resolves (Response 200 (Inr [''totalAnalyses'' \<mapsto> 3])))
       initialWorld))) ''totalTimeSaved'' = Some 0 \<and>
   ok (Response 200 (Inr (7::int))) \<and>
   analyses (state (snd (analyzeImpact (Inr (Some ''{}'')) (Resolves (Response 200 (Inr 7)))
       initialWorld))) = [7] \<and>
   currentAnalysis (state (snd (analyzeImpact (Inr (Some ''{}''))
       (Resolves (Response 200 (Inr 7))) initialWorld))) = Some 7 \<and>
   fst (getHealthStatus (Resolves (Response 200 (Inr (7::int)))) initialWorld) = Inr 7 \<and>
   state (snd (getHealthStatus (Resolves (Response 200 (Inr (7::int)))) initialWorld))
     = state initialWorld \<and>
   ok (Response 201 (Inr (7::int))) \<and>
   fst (createCoverageMapping (Inr (Some ''{}'')) (Resolves (Response 201 (Inr (7::int))))
       (Resolves (Response 200 (Inr [10, 20]))) initialWorld) = Inr 7 \<and>
   coverageMappings (state (snd (createCoverageMapping (Inr (Some ''{}''))
       (Resolves (Response 201 (Inr (7::int)))) (Resolves (Response 200 (Inr [10, 20])))
       initialWorld))) = [10, 20]"
proof -
  let ?r = "Response 200 (Inr [10, 20 :: int])"
  let ?m = "Response 200 (Inr [''totalAnalyses'' \<mapsto> 3 :: int])"
  let ?a = "Response 200 (Inr (7::int))"
  let ?c = "Response 201 (Inr (7::int))"
  have h: "ok ?r" "json ?r = Inr [10, 20]"
    and hm: "ok ?m" "json ?m = Inr [''totalAnalyses'' \<mapsto> 3]"
    and ha: "ok ?a" "json ?a = Inr 7"
    and hc: "ok ?c" "json ?c = Inr 7"
    by (simp_all add: ok_def)
  have url: "API_BASE_URL initialWorld @ ''/api/v1/analyses''
               = ''http://localhost:8000/api/v1/analyses''"
    "effects initialWorld = []"
    by (simp_all add: API_BASE_URL_def initialWorld_def)
  note inst = request_steps [of initialWorld "''/api/v1/analyses''" "Resolves ?r" ?r "[10, 20]"
      ?r "[10, 20]" ?m "[''totalAnalyses'' \<mapsto> 3]" ?a 7 "Some ''{}''" ?a 7 ?c 7]
  have analyses: "fst (getAnalyses (Resolves ?r) initialWorld) = Inr [10, 20] \<and>
      effects (snd (getAnalyses (Resolves ?r) initialWorld))
        = effects initialWorld @
            [Dispatched (SET_LOADING True), Dispatched CLEAR_ERROR,
             Fetched (API_BASE_URL initialWorld @ ''/api/v1/analyses''),
             Dispatched (SET_LOADING False), Dispatched (SET_ANALYSES [10, 20])] \<and>
      analyses (state (snd (getAnalyses (Resolves ?r) initialWorld))) = [10, 20] \<and>
      \<not> loading (state (snd (getAnalyses (Resolves ?r) initialWorld))) \<and>
      error (state (snd (getAnalyses (Resolves ?r) initialWorld))) = None"
    using h inst by blast
  have lists: "state (snd (getRepositories (Resolves ?r) initialWorld))
        = (state initialWorld)\<lparr>repositories := [10, 20], error := None, loading := False\<rparr>"
    "state (snd (getCoverageMappings (Resolves ?r) initialWorld))
        = (state initialWorld)\<lparr>coverageMappings := [10, 20], error := None, loading := False\<rparr>"
    using h inst by blast+
  have metrics: "state (snd (getMetrics (Resolves ?m) initialWorld))
        = (state initialWorld)\<lparr>stats := stats (state initialWorld) ++ [''totalAnalyses'' \<mapsto> 3],
             error := None, loading := False\<rparr>"
    using hm inst by blast
  have analysis: "state (snd (analyzeImpact (Inr (Some ''{}'')) (Resolves ?a) initialWorld))
        = (state initialWorld)\<lparr>analyses := 7 # analyses (state initialWorld),
             currentAnalysis := Some 7, error := None, loading := False\<rparr>"
    using ha inst by blast
  have health: "fst (getHealthStatus (Resolves ?a) initialWorld) = Inr 7"
    "state (snd (getHealthStatus (Resolves ?a) initialWorld))
        = (state initialWorld)\<lparr>error := None, loading := False\<rparr>"
    using ha inst by blast+
  have created:
    "fst (createCoverageMapping (Inr (Some ''{}'')) (Resolves ?c) (Resolves ?r) initialWorld)
        = Inr 7"
    "state (snd (createCoverageMapping (Inr (Some ''{}'')) (Resolves ?c) (Resolves ?r)
          initialWorld))
        = (state initialWorld)\<lparr>coverageMappings := [10, 20], error := None, loading := False\<rparr>"
    using hc h inst by blast+
  have init: "(state initialWorld)\<lparr>error := None, loading := False\<rparr> = state initialWorld"
    by (simp add: initialWorld_def initialState_def)
  show ?thesis
    using analyses h hm ha hc health(1) created(1)
    unfolding url lists metrics analysis health(2) created(2) init
    by (simp add: initialWorld_def initialState_def)
qed

subsection \<open>The reducer writes only the fields of the action's case\<close>

text \<open>
  C9: an action leaves every field that its \<open>case\<close> does not name as it was.
  \<open>ADD_ANALYSIS\<close> prepends the payload to \<open>analyses\<close> and sets \<open>currentAnalysis\<close> to it;
  \<open>SET_ERROR\<close> sets \<open>error\<close> and turns \<open>loading\<close> off; \<open>CLEAR_ERROR\<close> sets \<open>error\<close> to
  null; \<open>SET_LOADING\<close> sets \<open>loading\<close>; \<open>UPDATE_STATS\<close> gives each key of \<open>stats\<close> the
  payload's value when the payload has the key and keeps its value otherwise. An action
  whose type is none of the nine handled types returns the state unchanged.
\<close>

theorem reducer_frame:
  "(f \<notin> set (written_fields a) \<longrightarrow> unchanged f st (analysisReducer st a)) \<and>
   analyses (analysisReducer st (ADD_ANALYSIS x)) = x # analyses st \<and>
   currentAnalysis (analysisReducer st (ADD_ANALYSIS x)) = Some x \<and>
   error (analysisReducer st (SET_ERROR msg)) = Some msg \<and>
   \<not> loading (analysisReducer st (SET_ERROR msg)) \<and>
   error (analysisReducer st CLEAR_ERROR) = None \<and>
   loading (analysisReducer st (SET_LOADING b)) = b \<and>
   stats (analysisReducer st (UPDATE_STATS p)) k
     = (case p k of Some v \<Rightarrow> Some v | None \<Rightarrow> stats st k) \<and>
   (action_type a \<notin> set handled_types \<longrightarrow> analysisReducer st a = st)"
proof -
  have frame: "unchanged f st (analysisReducer st a)" if "f \<notin> set (written_fields a)"
    using that by (cases a; cases f) simp_all
  have other: "analysisReducer st a = st" if "action_type a \<notin> set handled_types"
    using that by (cases a) (simp_all add: handled_types_def)
  have merged: "stats (analysisReducer st (UPDATE_STATS p)) k
      = (case p k of Some v \<Rightarrow> Some v | None \<Rightarrow> stats st k)"
    by (simp add: map_add_def split: option.split)
  have written: "analyses (analysisReducer st (ADD_ANALYSIS x)) = x # analyses st"
    "currentAnalysis (analysisReducer st (ADD_ANALYSIS x)) = Some x"
    "error (analysisReducer st (SET_ERROR msg)) = Some msg"
    "\<not> loading (analysisReducer st (SET_ERROR msg))"
    "error (analysisReducer st CLEAR_ERROR) = None"
    "loading (analysisReducer st (SET_LOADING b)) = b"
    by simp_all
  show ?thesis
    using frame other merged written by blast
qed

theorem reducer_frame_witness:
  "F_stats \<notin> set (written_fields (ADD_ANALYSIS (7::int))) \<and>
   unchanged F_stats (initialState (0::int)) (analysisReducer (initialState (0::int)) (ADD_ANALYSIS 7)) \<and>
   F_analyses \<notin> set (written_fields (SET_ERROR ''Failed to fetch'' :: int action)) \<and>
   unchanged F_analyses (initialState (0::int))
     (analysisReducer (initialState (0::int)) (SET_ERROR ''Failed to fetch'' :: int action)) \<and>
   analyses (analysisReducer (initialState (0::int)) (ADD_ANALYSIS 7)) = [7] \<and>
   action_type (OTHER ''RESET'' :: int action) \<notin> set handled_types \<and>
   analysisReducer (initialState (0::int)) (OTHER ''RESET'') = initialState (0::int)"
proof -
  have h: "F_stats \<notin> set (written_fields (ADD_ANALYSIS (7::int)))"
    "F_analyses \<notin> set (written_fields (SET_ERROR ''Failed to fetch'' :: int action))"
    "action_type (OTHER ''RESET'' :: int action) \<notin> set handled_types"
    by (simp_all add: handled_types_def)
  have "F_stats \<notin> set (written_fields (ADD_ANALYSIS (7::int))) \<longrightarrow>
      unchanged F_stats (initialState (0::int)) (analysisReducer (initialState (0::int)) (ADD_ANALYSIS 7))"
    by (rule reducer_frame [of F_stats "ADD_ANALYSIS (7::int)" "initialState (0::int)",
          THEN conjunct1])
  from this h(1)
  have a: "unchanged F_stats (initialState (0::int)) (analysisReducer (initialState (0::int)) (ADD_ANALYSIS 7))"
    by (rule mp)
  have "F_analyses \<notin> set (written_fields (SET_ERROR ''Failed to fetch'' :: int action)) \<longrightarrow>
      unchanged F_analyses (initialState (0::int))
        (analysisReducer (initialState (0::int)) (SET_ERROR ''Failed to fetch'' :: int action))"
    by (rule reducer_frame [of F_analyses "SET_ERROR ''Failed to fetch'' :: int action"
          "initialState (0::int)", THEN conjunct1])
  from this h(2)
  have b: "unchanged F_analyses (initialState (0::int))
     (analysisReducer (initialState (0::int)) (SET_ERROR ''Failed to fetch'' :: int action))"
    by (rule mp)
  have "action_type (OTHER ''RESET'' :: int action) \<notin> set handled_types \<longrightarrow>
      analysisReducer (initialState (0::int)) (OTHER ''RESET'') = initialState (0::int)"
    by (rule reducer_frame [of F_stats "OTHER ''RESET'' :: int action" "initialState (0::int)",
          THEN conjunct2, THEN conjunct2, THEN conjunct2, THEN conjunct2, THEN conjunct2,
          THEN conjunct2, THEN conjunct2, THEN conjunct2])
  from this h(3)
  have c: "analysisReducer (initialState (0::int)) (OTHER ''RESET'') = initialState (0::int)"
    by (rule mp)
  have d: "analyses (analysisReducer (initialState (0::int)) (ADD_ANALYSIS 7)) = [7::int]"
    by (simp add: initialState_def)
  from h(1) a h(2) b d h(3) c show ?thesis
    by (intro conjI)
qed


end
